theory Spec2Isabelle
  imports Complex_Main "HOL-Library.Sublist" "HOL-Library.AList"
begin

text \<open>
  The ingestion and decision core of \<open>app.py\<close>: the TXT, CSV and XML parsers, which
  turn a report into a data frame of zone records, and \<open>recommend_protective_actions\<close>,
  which derives an action and a colour from the dose of each record. The library
  functions the parsers call (\<open>float\<close>, \<open>ET.fromstring\<close>, \<open>pd.read_csv\<close>) are parameters.
\<close>

section \<open>Python values\<close>

text \<open>
  A Python \<open>float\<close> is a finite number, an infinity or NaN. Every finite double is a
  real number and a comparison of two floats never rounds, so the finite floats are
  embedded in \<open>real\<close>; the three remaining values are kept apart because the dose
  ladder of \<open>get_action\<close> treats them differently (every comparison with NaN is false).
\<close>

datatype pyfloat = Fin real | PosInf | NegInf | NaN

text \<open>\<open>d >= t\<close> and \<open>d < t\<close> for a float \<open>d\<close> and a finite threshold \<open>t\<close>.\<close>

fun float_ge :: "pyfloat \<Rightarrow> real \<Rightarrow> bool" where
  "float_ge (Fin x) t = (t \<le> x)"
| "float_ge PosInf t = True"
| "float_ge NegInf t = False"
| "float_ge NaN t = False"

fun float_lt :: "pyfloat \<Rightarrow> real \<Rightarrow> bool" where
  "float_lt (Fin x) t = (x < t)"
| "float_lt PosInf t = False"
| "float_lt NegInf t = True"
| "float_lt NaN t = False"

text \<open>The values a cell of a data frame or an entry of a dict holds in this program.\<close>

datatype pyval = PStr string | PNum pyfloat | PNone

datatype py_error = KeyError string | TypeError | ValueError | ParseError

section \<open>Protective action logic\<close>

definition EVACUATE_THRESHOLD :: real where "EVACUATE_THRESHOLD = 10"
definition SHELTER_THRESHOLD :: real where "SHELTER_THRESHOLD = 5"
definition MONITOR_THRESHOLD :: real where "MONITOR_THRESHOLD = 1"

text \<open>
  \<open>dose >= threshold\<close>: defined on numbers; on a string or on \<open>None\<close> Python raises
  \<open>TypeError\<close>.
\<close>

fun dose_ge :: "pyval \<Rightarrow> real \<Rightarrow> py_error + bool" where
  "dose_ge (PNum d) t = Inr (float_ge d t)"
| "dose_ge (PStr s) t = Inl TypeError"
| "dose_ge PNone t = Inl TypeError"

definition get_action :: "pyval \<Rightarrow> py_error + pyval" where
  "get_action dose =
     (case dose_ge dose EVACUATE_THRESHOLD of Inl e \<Rightarrow> Inl e
      | Inr b1 \<Rightarrow> if b1 then Inr (PStr ''Evacuate'')
        else (case dose_ge dose SHELTER_THRESHOLD of Inl e \<Rightarrow> Inl e
      | Inr b2 \<Rightarrow> if b2 then Inr (PStr ''Shelter-in-Place'')
        else (case dose_ge dose MONITOR_THRESHOLD of Inl e \<Rightarrow> Inl e
      | Inr b3 \<Rightarrow> if b3 then Inr (PStr ''Monitor & Advise'')
        else Inr (PStr ''No Immediate Action''))))"

definition get_color :: "pyval \<Rightarrow> pyval" where
  "get_color action =
     (if action = PStr ''Evacuate'' then PStr ''red''
      else if action = PStr ''Shelter-in-Place'' then PStr ''orange''
      else if action = PStr ''Monitor & Advise'' then PStr ''yellow''
      else PStr ''green'')"

section \<open>Data frames\<close>

text \<open>
  A dict literal of the parsers is an association list in insertion order. A data frame
  is column oriented, as in pandas: the length of its index and its columns in order,
  each a name with one cell per index entry.
\<close>

type_synonym row = "(string \<times> pyval) list"

record dataframe =
  n_rows :: nat
  cols :: "(string \<times> pyval list) list"

text \<open>
  \<open>pd.DataFrame(data)\<close> for a list of dicts: one row per dict, the columns are the keys
  in the order of their first appearance, a key a dict lacks gives NaN.
\<close>

definition union_keys :: "row list \<Rightarrow> string list" where
  "union_keys data = foldl (\<lambda>seen d. seen @ filter (\<lambda>k. k \<notin> set seen) (map fst d)) [] data"

definition cell :: "row \<Rightarrow> string \<Rightarrow> pyval" where
  "cell d k = (case map_of d k of Some v \<Rightarrow> v | None \<Rightarrow> PNum NaN)"

definition DataFrame :: "row list \<Rightarrow> dataframe" where
  "DataFrame data =
     \<lparr>n_rows = length data, cols = map (\<lambda>k. (k, map (\<lambda>d. cell d k) data)) (union_keys data)\<rparr>"

text \<open>\<open>df.empty\<close>: one of the two axes has length 0.\<close>

definition empty_frame :: "dataframe \<Rightarrow> bool" where
  "empty_frame df = (n_rows df = 0 \<or> cols df = [])"

text \<open>\<open>df[k]\<close>, \<open>df[k] = series\<close> and \<open>df[k] = scalar\<close>.\<close>

definition getitem :: "dataframe \<Rightarrow> string \<Rightarrow> py_error + pyval list" where
  "getitem df k = (case map_of (cols df) k of None \<Rightarrow> Inl (KeyError k) | Some vs \<Rightarrow> Inr vs)"

definition setitem :: "dataframe \<Rightarrow> string \<Rightarrow> pyval list \<Rightarrow> dataframe" where
  "setitem df k vs = df\<lparr>cols := AList.update k vs (cols df)\<rparr>"

definition setitem_scalar :: "dataframe \<Rightarrow> string \<Rightarrow> pyval \<Rightarrow> dataframe" where
  "setitem_scalar df k v = setitem df k (replicate (n_rows df) v)"

text \<open>\<open>series.apply(f)\<close>: the first exception of \<open>f\<close> ends the call.\<close>

fun apply_series :: "(pyval \<Rightarrow> py_error + pyval) \<Rightarrow> pyval list \<Rightarrow> py_error + pyval list" where
  "apply_series f [] = Inr []"
| "apply_series f (v # vs) =
     (case f v of Inl e \<Rightarrow> Inl e
      | Inr w \<Rightarrow> (case apply_series f vs of Inl e \<Rightarrow> Inl e | Inr ws \<Rightarrow> Inr (w # ws)))"

text \<open>The rows of a frame, each as the dict of its cells (\<open>df.to_dict('records')\<close>).\<close>

definition records :: "dataframe \<Rightarrow> row list" where
  "records df = map (\<lambda>i. map (\<lambda>c. (fst c, snd c ! i)) (cols df)) [0..<n_rows df]"

subsection \<open>Objects and references\<close>

text \<open>
  A data frame is a mutable object and a variable holds a reference to it. The store
  lists the objects; a reference is a position in it. \<open>df.copy()\<close> allocates a new object
  with the same contents.
\<close>

type_synonym ref = nat
type_synonym store = "dataframe list"

definition copy_frame :: "store \<Rightarrow> ref \<Rightarrow> store \<times> ref" where
  "copy_frame s r = (s @ [s ! r], length s)"

text \<open>
  The decision engine. It receives a reference, assigns the two derived columns to the
  object behind it, one after the other, and returns the reference it was given.
\<close>

definition recommend_protective_actions :: "store \<Rightarrow> ref \<Rightarrow> py_error + (store \<times> ref)" where
  "recommend_protective_actions s df =
     (if empty_frame (s ! df) then Inr (s, df)
      else (case getitem (s ! df) ''Dose (mSv)'' of Inl e \<Rightarrow> Inl e
      | Inr doses \<Rightarrow> (case apply_series get_action doses of Inl e \<Rightarrow> Inl e
      | Inr actions \<Rightarrow>
          (let s1 = s[df := setitem (s ! df) ''Recommended Action'' actions]
           in (case getitem (s1 ! df) ''Recommended Action'' of Inl e \<Rightarrow> Inl e
      | Inr acts \<Rightarrow>
          Inr (s1[df := setitem (s1 ! df) ''Action Color'' (map get_color acts)], df))))))"

text \<open>
  The call site of the application:
  \<open>recommend_protective_actions(st.session_state['parsed_data'].copy())\<close>.
\<close>

definition recommend_on_copy :: "store \<Rightarrow> ref \<Rightarrow> py_error + (store \<times> ref)" where
  "recommend_on_copy s parsed_data =
     (case copy_frame s parsed_data of (s', c) \<Rightarrow> recommend_protective_actions s' c)"

section \<open>Strings\<close>

text \<open>
  A string is the list of its characters, a character a code point below 256.
  \<open>is_space\<close> lists the code points in that range that \<open>str.strip()\<close> removes.
\<close>

definition is_space :: "char \<Rightarrow> bool" where
  "is_space c = ((of_char c :: nat) \<in> {9, 10, 11, 12, 13, 28, 29, 30, 31, 32, 133, 160})"

definition strip :: "string \<Rightarrow> string" where
  "strip s = rev (dropWhile is_space (rev (dropWhile is_space s)))"

text \<open>
  \<open>s.split(sep)\<close>: the occurrences of \<open>sep\<close> are found from the left and do not
  overlap. Every call of the program passes a literal, non-empty separator (Python
  rejects the empty one).
\<close>

function split_on :: "string \<Rightarrow> string \<Rightarrow> string list" where
  "split_on sep [] = [[]]"
| "split_on sep (c # cs) =
     (if prefix sep (c # cs) then [] # split_on sep (drop (length sep - 1) cs)
      else (case split_on sep cs of [] \<Rightarrow> [[c]] | w # ws \<Rightarrow> (c # w) # ws))"
  by pat_completeness auto
termination
  by (relation "measure (\<lambda>(sep, s). length s)") auto

text \<open>
  \<open>float(x)\<close> is a builtin: the parsers take its behaviour on strings as the parameter
  \<open>float_of\<close>, \<open>None\<close> standing for \<open>ValueError\<close>. Applied to Python's \<open>None\<close> (an
  attribute that is absent) \<open>float\<close> raises \<open>TypeError\<close>.
\<close>

fun py_float :: "(string \<Rightarrow> pyfloat option) \<Rightarrow> string option \<Rightarrow> py_error + pyfloat" where
  "py_float float_of None = Inl TypeError"
| "py_float float_of (Some s) = (case float_of s of None \<Rightarrow> Inl ValueError | Some x \<Rightarrow> Inr x)"

text \<open>
  A fragment of \<open>float\<close>, used to run the parsers on concrete inputs: surrounding
  whitespace, a sign, digits, and a fraction after a point. On these literals \<open>float\<close>
  returns the double nearest to the value computed here; the exponents, infinities
  and NaN that \<open>float\<close> also reads are outside the fragment.
\<close>

definition is_digit :: "char \<Rightarrow> bool" where
  "is_digit c = (48 \<le> (of_char c :: nat) \<and> (of_char c :: nat) \<le> 57)"

definition digits_val :: "string \<Rightarrow> nat" where
  "digits_val ds = foldl (\<lambda>n c. 10 * n + (of_char c - 48)) 0 ds"

definition unsigned_decimal :: "string \<Rightarrow> real option" where
  "unsigned_decimal s =
     (let ip = takeWhile is_digit s; rest = dropWhile is_digit s
      in (case rest of
            [] \<Rightarrow> if ip = [] then None else Some (real (digits_val ip))
          | c # fp \<Rightarrow>
              if c = CHR ''.'' \<and> list_all is_digit fp \<and> (ip \<noteq> [] \<or> fp \<noteq> [])
              then Some (real (digits_val ip) + real (digits_val fp) / 10 ^ length fp)
              else None))"

definition decimal_literal :: "string \<Rightarrow> pyfloat option" where
  "decimal_literal s =
     (case strip s of
        [] \<Rightarrow> None
      | c # cs \<Rightarrow>
          if c = CHR ''-'' then map_option (\<lambda>x. Fin (- x)) (unsigned_decimal cs)
          else if c = CHR ''+'' then map_option Fin (unsigned_decimal cs)
          else map_option Fin (unsigned_decimal (c # cs)))"

section \<open>Warnings\<close>

text \<open>
  \<open>st.warning\<close> shows a message; the parsers return the messages of one call in order.
  \<open>MalformedTxtLine l\<close> is "Skipping malformed TXT line: l", \<open>WrongColumnCount l\<close> is
  "Skipping TXT line with incorrect number of columns: l" and \<open>MalformedXmlZone t e\<close> is
  "Skipping malformed XML zone element: t - e".
\<close>

datatype warning =
    MalformedTxtLine string
  | WrongColumnCount string
  | MalformedXmlZone string py_error

section \<open>The TXT parser\<close>

definition txt_lines :: "string \<Rightarrow> string list" where
  "txt_lines file_content = split_on [CHR 0x0A] (strip file_content)"

definition txt_header_lines :: "string \<Rightarrow> string list" where
  "txt_header_lines file_content = filter (\<lambda>line. CHR '':'' \<in> set line) (txt_lines file_content)"

definition is_data_line :: "string \<Rightarrow> bool" where
  "is_data_line line = (CHR '';'' \<in> set line \<and> \<not> prefix ''Zone;'' line)"

definition txt_data_lines :: "string \<Rightarrow> string list" where
  "txt_data_lines file_content = filter is_data_line (txt_lines file_content)"

text \<open>\<open>h_line.split(key)[1].strip()\<close>, evaluated only where \<open>key in h_line\<close> holds.\<close>

definition header_value :: "string \<Rightarrow> string \<Rightarrow> string" where
  "header_value key h_line = strip (split_on key h_line ! 1)"

text \<open>The loop over the header lines, on the variables \<open>incident_name\<close> and \<open>timestamp\<close>.\<close>

fun scan_headers :: "string list \<Rightarrow> string \<times> string \<Rightarrow> string \<times> string" where
  "scan_headers [] (incident_name, timestamp) = (incident_name, timestamp)"
| "scan_headers (h_line # rest) (incident_name, timestamp) =
     (if sublist ''Incident:'' h_line
      then scan_headers rest (header_value ''Incident:'' h_line, timestamp)
      else if sublist ''Timestamp:'' h_line
      then scan_headers rest (incident_name, header_value ''Timestamp:'' h_line)
      else scan_headers rest (incident_name, timestamp))"

definition txt_headers :: "string \<Rightarrow> string \<times> string" where
  "txt_headers file_content = scan_headers (txt_header_lines file_content) ([], [])"

text \<open>The dict literal inside \<open>try\<close>: its values are evaluated in order.\<close>

definition txt_row :: "(string \<Rightarrow> pyfloat option) \<Rightarrow> string list \<Rightarrow> py_error + row" where
  "txt_row float_of parts =
     (case py_float float_of (Some (strip (parts ! 1))) of Inl e \<Rightarrow> Inl e
      | Inr dose \<Rightarrow> (case py_float float_of (Some (strip (parts ! 3))) of Inl e \<Rightarrow> Inl e
      | Inr radius \<Rightarrow> (case py_float float_of (Some (strip (parts ! 4))) of Inl e \<Rightarrow> Inl e
      | Inr latitude \<Rightarrow> (case py_float float_of (Some (strip (parts ! 5))) of Inl e \<Rightarrow> Inl e
      | Inr longitude \<Rightarrow>
          Inr [(''Zone'', PStr (strip (parts ! 0))),
               (''Dose (mSv)'', PNum dose),
               (''Radionuclide'', PStr (strip (parts ! 2))),
               (''Radius (km)'', PNum radius),
               (''Latitude'', PNum latitude),
               (''Longitude'', PNum longitude)]))))"

text \<open>
  The loop over the data lines, on the list \<open>data\<close> and the warnings shown so far.
  \<open>except ValueError\<close> catches that exception only.
\<close>

fun txt_loop ::
  "(string \<Rightarrow> pyfloat option) \<Rightarrow> string list \<Rightarrow> row list \<Rightarrow> warning list
     \<Rightarrow> py_error + (row list \<times> warning list)" where
  "txt_loop float_of [] data ws = Inr (data, ws)"
| "txt_loop float_of (line # rest) data ws =
     (let parts = split_on '';'' line
      in if length parts = 6
         then (case txt_row float_of parts of
                 Inr r \<Rightarrow> txt_loop float_of rest (data @ [r]) ws
               | Inl e \<Rightarrow>
                   if e = ValueError
                   then txt_loop float_of rest data (ws @ [MalformedTxtLine line])
                   else Inl e)
         else txt_loop float_of rest data (ws @ [WrongColumnCount line]))"

definition parse_txt ::
  "(string \<Rightarrow> pyfloat option) \<Rightarrow> string \<Rightarrow> py_error + (dataframe \<times> warning list)" where
  "parse_txt float_of file_content =
     (let data_lines = txt_data_lines file_content;
          (incident_name, timestamp) = txt_headers file_content
      in (case (if data_lines \<noteq> [] then txt_loop float_of data_lines [] [] else Inr ([], [])) of
            Inl e \<Rightarrow> Inl e
          | Inr (data, ws) \<Rightarrow>
              Inr (setitem_scalar
                     (setitem_scalar (DataFrame data) ''Incident'' (PStr incident_name))
                     ''Timestamp'' (PStr timestamp), ws)))"

section \<open>The CSV parser\<close>

text \<open>
  \<open>pd.read_csv\<close> belongs to pandas and is the parameter \<open>read_csv\<close>; the parser itself
  only strips the column names of what it returns.
\<close>

definition parse_csv :: "(string \<Rightarrow> py_error + dataframe) \<Rightarrow> string \<Rightarrow> py_error + dataframe" where
  "parse_csv read_csv file_content =
     (case read_csv file_content of
        Inl e \<Rightarrow> Inl e
      | Inr df \<Rightarrow> Inr (df\<lparr>cols := map (\<lambda>c. (strip (fst c), snd c)) (cols df)\<rparr>))"

section \<open>The XML parser\<close>

text \<open>An element of the tree \<open>ET.fromstring\<close> builds: tag, attributes, children.\<close>

datatype element = Element (tag: string) (attrib: "(string \<times> string) list") (children: "element list")

text \<open>\<open>elem.get(k)\<close> is \<open>None\<close> for an absent attribute.\<close>

definition get_attr :: "element \<Rightarrow> string \<Rightarrow> string option" where
  "get_attr e k = map_of (attrib e) k"

definition opt_str :: "string option \<Rightarrow> pyval" where
  "opt_str v = (case v of None \<Rightarrow> PNone | Some s \<Rightarrow> PStr s)"

text \<open>\<open>root.find(t)\<close>: the first child with tag \<open>t\<close>.\<close>

definition find_child :: "string \<Rightarrow> element \<Rightarrow> element option" where
  "find_child t root_elem = List.find (\<lambda>c. tag c = t) (children root_elem)"

text \<open>\<open>root.findall('.//' + t)\<close>: the elements below the root with tag \<open>t\<close>, in document order.\<close>

fun descendants :: "element \<Rightarrow> element list" where
  "descendants (Element t a cs) = concat (map (\<lambda>c. c # descendants c) cs)"

definition findall_below :: "string \<Rightarrow> element \<Rightarrow> element list" where
  "findall_below t root_elem = filter (\<lambda>e. tag e = t) (descendants root_elem)"

definition xml_row :: "(string \<Rightarrow> pyfloat option) \<Rightarrow> element \<Rightarrow> py_error + row" where
  "xml_row float_of zone_elem =
     (case py_float float_of (get_attr zone_elem ''dose_mSv'') of Inl e \<Rightarrow> Inl e
      | Inr dose \<Rightarrow> (case py_float float_of (get_attr zone_elem ''radius_km'') of Inl e \<Rightarrow> Inl e
      | Inr radius \<Rightarrow> (case py_float float_of (get_attr zone_elem ''latitude'') of Inl e \<Rightarrow> Inl e
      | Inr latitude \<Rightarrow> (case py_float float_of (get_attr zone_elem ''longitude'') of Inl e \<Rightarrow> Inl e
      | Inr longitude \<Rightarrow>
          Inr [(''Zone'', opt_str (get_attr zone_elem ''name'')),
               (''Dose (mSv)'', PNum dose),
               (''Radionuclide'', opt_str (get_attr zone_elem ''radionuclide'')),
               (''Radius (km)'', PNum radius),
               (''Latitude'', PNum latitude),
               (''Longitude'', PNum longitude)]))))"

fun xml_loop ::
  "(string \<Rightarrow> pyfloat option) \<Rightarrow> element list \<Rightarrow> row list \<Rightarrow> warning list
     \<Rightarrow> py_error + (row list \<times> warning list)" where
  "xml_loop float_of [] data ws = Inr (data, ws)"
| "xml_loop float_of (zone_elem # rest) data ws =
     (case xml_row float_of zone_elem of
        Inr r \<Rightarrow> xml_loop float_of rest (data @ [r]) ws
      | Inl e \<Rightarrow>
          if e = TypeError \<or> e = ValueError
          then xml_loop float_of rest data (ws @ [MalformedXmlZone (tag zone_elem) e])
          else Inl e)"

text \<open>The parser from the root on (everything after \<open>ET.fromstring\<close>).\<close>

definition parse_xml_root ::
  "(string \<Rightarrow> pyfloat option) \<Rightarrow> element \<Rightarrow> py_error + (dataframe \<times> warning list)" where
  "parse_xml_root float_of root_elem =
     (let incident_elem = find_child ''Incident'' root_elem;
          incident_name = (case incident_elem of Some e \<Rightarrow> opt_str (get_attr e ''name'') | None \<Rightarrow> PStr ''N/A'');
          timestamp = (case incident_elem of Some e \<Rightarrow> opt_str (get_attr e ''timestamp'') | None \<Rightarrow> PStr ''N/A'')
      in (case xml_loop float_of (findall_below ''Zone'' root_elem) [] [] of
            Inl e \<Rightarrow> Inl e
          | Inr (data, ws) \<Rightarrow>
              Inr (setitem_scalar (setitem_scalar (DataFrame data) ''Incident'' incident_name)
                     ''Timestamp'' timestamp, ws)))"

text \<open>
  \<open>ET.fromstring\<close> is the parameter \<open>fromstring\<close>: it returns the root or raises on text
  that is not XML, and that exception leaves the parser.
\<close>

definition parse_xml ::
  "(string \<Rightarrow> py_error + element) \<Rightarrow> (string \<Rightarrow> pyfloat option) \<Rightarrow> string
     \<Rightarrow> py_error + (dataframe \<times> warning list)" where
  "parse_xml fromstring float_of file_content =
     (case fromstring file_content of
        Inl e \<Rightarrow> Inl e
      | Inr root_elem \<Rightarrow> parse_xml_root float_of root_elem)"

section \<open>Notions of the specification\<close>

text \<open>The four recommended actions.\<close>

definition action_names :: "string list" where
  "action_names = [''Evacuate'', ''Shelter-in-Place'', ''Monitor & Advise'', ''No Immediate Action'']"

text \<open>A record set with well-formed numeric doses: it has a dose column and every cell of it is a number.\<close>

definition is_number :: "pyval \<Rightarrow> bool" where
  "is_number v = (case v of PNum d \<Rightarrow> True | _ \<Rightarrow> False)"

definition numeric_dose :: "dataframe \<Rightarrow> bool" where
  "numeric_dose df =
     (case map_of (cols df) ''Dose (mSv)'' of None \<Rightarrow> False | Some doses \<Rightarrow> list_all is_number doses)"

text \<open>The six fields of a record before the incident and the timestamp are attached.\<close>

definition zone_keys :: "string list" where
  "zone_keys = [''Zone'', ''Dose (mSv)'', ''Radionuclide'', ''Radius (km)'', ''Latitude'', ''Longitude'']"

text \<open>
  A well-formed data line of a TXT report: splitting it on the semicolon gives six
  fields, and the second, fourth, fifth and sixth field, stripped, read as numbers.
\<close>

definition well_formed_line :: "(string \<Rightarrow> pyfloat option) \<Rightarrow> string \<Rightarrow> bool" where
  "well_formed_line float_of line =
     (length (split_on '';'' line) = 6
      \<and> list_all (\<lambda>i. float_of (strip (split_on '';'' line ! i)) \<noteq> None) [1, 3, 4, 5])"

text \<open>What one data line contributes: a record or nothing, and a warning or nothing.\<close>

definition txt_record :: "(string \<Rightarrow> pyfloat option) \<Rightarrow> string \<Rightarrow> row option" where
  "txt_record float_of line =
     (if length (split_on '';'' line) = 6
      then (case txt_row float_of (split_on '';'' line) of Inr r \<Rightarrow> Some r | Inl e \<Rightarrow> None)
      else None)"

definition txt_warning :: "(string \<Rightarrow> pyfloat option) \<Rightarrow> string \<Rightarrow> warning option" where
  "txt_warning float_of line =
     (if length (split_on '';'' line) = 6
      then (case txt_row float_of (split_on '';'' line) of
              Inr r \<Rightarrow> None | Inl e \<Rightarrow> Some (MalformedTxtLine line))
      else Some (WrongColumnCount line))"

text \<open>A header line that sets the timestamp: it holds the timestamp key and not the incident key.\<close>

definition sets_timestamp :: "string \<Rightarrow> bool" where
  "sets_timestamp h_line = (sublist ''Timestamp:'' h_line \<and> \<not> sublist ''Incident:'' h_line)"

text \<open>
  A Zone element whose four numeric attributes are present and read as numbers, and
  what one Zone element contributes.
\<close>

definition numeric_attributes :: "(string \<Rightarrow> pyfloat option) \<Rightarrow> element \<Rightarrow> bool" where
  "numeric_attributes float_of zone_elem =
     list_all (\<lambda>k. case get_attr zone_elem k of None \<Rightarrow> False | Some v \<Rightarrow> float_of v \<noteq> None)
       [''dose_mSv'', ''radius_km'', ''latitude'', ''longitude'']"

definition xml_record :: "(string \<Rightarrow> pyfloat option) \<Rightarrow> element \<Rightarrow> row option" where
  "xml_record float_of zone_elem =
     (case xml_row float_of zone_elem of Inr r \<Rightarrow> Some r | Inl e \<Rightarrow> None)"

definition xml_warning :: "(string \<Rightarrow> pyfloat option) \<Rightarrow> element \<Rightarrow> warning option" where
  "xml_warning float_of zone_elem =
     (case xml_row float_of zone_elem of
        Inr r \<Rightarrow> None | Inl e \<Rightarrow> Some (MalformedXmlZone (tag zone_elem) e))"

text \<open>The incident and the timestamp the XML parser attaches.\<close>

definition xml_incident :: "element \<Rightarrow> pyval" where
  "xml_incident root_elem =
     (case find_child ''Incident'' root_elem of
        Some e \<Rightarrow> opt_str (get_attr e ''name'') | None \<Rightarrow> PStr ''N/A'')"

definition xml_timestamp :: "element \<Rightarrow> pyval" where
  "xml_timestamp root_elem =
     (case find_child ''Incident'' root_elem of
        Some e \<Rightarrow> opt_str (get_attr e ''timestamp'') | None \<Rightarrow> PStr ''N/A'')"

text \<open>A record set that is empty or whose records all carry the incident and timestamp of the first.\<close>

definition same_incident :: "dataframe \<Rightarrow> bool" where
  "same_incident df =
     (case records df of
        [] \<Rightarrow> True
      | r # rs \<Rightarrow>
          list_all (\<lambda>q. map_of q ''Incident'' = map_of r ''Incident''
                       \<and> map_of q ''Timestamp'' = map_of r ''Timestamp'') rs)"

text \<open>A record with the incident and the timestamp attached.\<close>

definition attach :: "pyval \<Rightarrow> pyval \<Rightarrow> row \<Rightarrow> row" where
  "attach i t r = r @ [(''Incident'', i), (''Timestamp'', t)]"

section \<open>Example inputs\<close>

text \<open>
  The record set of one zone with dose 12.5 mSv, as the TXT parser builds it, the same
  record set with the two derived columns, and a record set without records.
\<close>

definition zone_a_frame :: dataframe where
  "zone_a_frame =
     \<lparr>n_rows = 1,
      cols = [(''Zone'', [PStr ''Zone A'']),
              (''Dose (mSv)'', [PNum (Fin (25 / 2))]),
              (''Radionuclide'', [PStr ''I-131'']),
              (''Radius (km)'', [PNum (Fin 5)]),
              (''Latitude'', [PNum (Fin (- (16793 / 500)))]),
              (''Longitude'', [PNum (Fin (9201 / 500))]),
              (''Incident'', [PStr ''Test1'']),
              (''Timestamp'', [PStr ''2024-01-01 00:00:00''])]\<rparr>"

definition zone_a_recommended :: dataframe where
  "zone_a_recommended =
     \<lparr>n_rows = 1,
      cols = [(''Zone'', [PStr ''Zone A'']),
              (''Dose (mSv)'', [PNum (Fin (25 / 2))]),
              (''Radionuclide'', [PStr ''I-131'']),
              (''Radius (km)'', [PNum (Fin 5)]),
              (''Latitude'', [PNum (Fin (- (16793 / 500)))]),
              (''Longitude'', [PNum (Fin (9201 / 500))]),
              (''Incident'', [PStr ''Test1'']),
              (''Timestamp'', [PStr ''2024-01-01 00:00:00'']),
              (''Recommended Action'', [PStr ''Evacuate'']),
              (''Action Color'', [PStr ''red''])]\<rparr>"

definition no_zones :: dataframe where
  "no_zones = \<lparr>n_rows = 0, cols = [(''Incident'', []), (''Timestamp'', [])]\<rparr>"

text \<open>
  Three data lines of a TXT report: a well-formed one, one whose dose is not a number
  and one with five fields.
\<close>

definition good_line :: string where "good_line = ''Zone A;12.5;I-131;5.0;-33.586;18.402''"

definition bad_dose_line :: string where "bad_dose_line = ''Zone B;high;Cs-137;5.0;-33.586;18.402''"

definition short_line :: string where "short_line = ''Zone C;3.0;Sr-90;5.0;-33.586''"

text \<open>
  A report whose first line holds both header keys and whose keys occur on several lines.
\<close>

definition two_headers :: string where
  "two_headers = ''Incident: First Timestamp: 09:00'' @ [CHR 0x0A] @ ''Timestamp: 10:00'' @ [CHR 0x0A]
     @ ''Incident: Second'' @ [CHR 0x0A] @ ''Timestamp: 11:00'' @ [CHR 0x0A] @ ''Zone A;1;I-131;1;0;0''"

text \<open>
  \<open>ET.fromstring\<close> and \<open>pd.read_csv\<close> on one known file: the text of the file and what
  the library decodes it to. Any other text is refused.
\<close>

definition read_table :: "string \<Rightarrow> dataframe \<Rightarrow> string \<Rightarrow> py_error + dataframe" where
  "read_table text frame file_content = (if file_content = text then Inr frame else Inl ParseError)"

definition read_document :: "string \<Rightarrow> element \<Rightarrow> string \<Rightarrow> py_error + element" where
  "read_document text tree file_content = (if file_content = text then Inr tree else Inl ParseError)"

text \<open>
  An XML document with four Zone elements: a complete one, one whose dose is not a
  number, one without \<open>name\<close> and \<open>radionuclide\<close>, and one without \<open>radius_km\<close>.
\<close>

definition mixed_zones_xml :: string where
  "mixed_zones_xml =
     ''<Report><Incident name='Test3' timestamp='2024-01-01 00:00:00'/>''
     @ ''<Zone name='Zone A' dose_mSv='12.5' radionuclide='I-131' radius_km='5.0' latitude='-33.586' longitude='18.402'/>''
     @ ''<Zone name='Zone B' dose_mSv='high' radionuclide='Cs-137' radius_km='2.0' latitude='-33.59' longitude='18.41'/>''
     @ ''<Zone dose_mSv='3.0' radius_km='1.5' latitude='-33.6' longitude='18.4'/>''
     @ ''<Zone name='Zone D' dose_mSv='0.5' radionuclide='Sr-90' latitude='-33.61' longitude='18.42'/></Report>''"

definition mixed_zones_doc :: element where
  "mixed_zones_doc =
     Element ''Report'' []
       [Element ''Incident'' [(''name'', ''Test3''), (''timestamp'', ''2024-01-01 00:00:00'')] [],
        Element ''Zone'' [(''name'', ''Zone A''), (''dose_mSv'', ''12.5''), (''radionuclide'', ''I-131''),
                          (''radius_km'', ''5.0''), (''latitude'', ''-33.586''), (''longitude'', ''18.402'')] [],
        Element ''Zone'' [(''name'', ''Zone B''), (''dose_mSv'', ''high''), (''radionuclide'', ''Cs-137''),
                          (''radius_km'', ''2.0''), (''latitude'', ''-33.59''), (''longitude'', ''18.41'')] [],
        Element ''Zone'' [(''dose_mSv'', ''3.0''), (''radius_km'', ''1.5''), (''latitude'', ''-33.6''),
                          (''longitude'', ''18.4'')] [],
        Element ''Zone'' [(''name'', ''Zone D''), (''dose_mSv'', ''0.5''), (''radionuclide'', ''Sr-90''),
                          (''latitude'', ''-33.61''), (''longitude'', ''18.42'')] []]"

text \<open>
  Two Zone elements on their own, and a document without an \<open>Incident\<close> element whose
  only Zone lacks the \<open>name\<close> attribute, with the record set the parser returns for it.
\<close>

definition bad_dose_zone :: element where
  "bad_dose_zone =
     Element ''Zone'' [(''name'', ''Zone B''), (''dose_mSv'', ''high''), (''radionuclide'', ''Cs-137''),
                       (''radius_km'', ''2.0''), (''latitude'', ''-33.59''), (''longitude'', ''18.41'')] []"

definition nameless_zone :: element where
  "nameless_zone =
     Element ''Zone'' [(''dose_mSv'', ''3.0''), (''radionuclide'', ''Cs-137''), (''radius_km'', ''1.5''),
                       (''latitude'', ''-33.6''), (''longitude'', ''18.4'')] []"

definition nameless_xml :: string where
  "nameless_xml =
     ''<Report><Zone dose_mSv='3.0' radionuclide='Cs-137' radius_km='1.5' latitude='-33.6' longitude='18.4'/></Report>''"

definition nameless_doc :: element where
  "nameless_doc = Element ''Report'' [] [nameless_zone]"

definition nameless_frame :: dataframe where
  "nameless_frame =
     \<lparr>n_rows = 1,
      cols = [(''Zone'', [PNone]),
              (''Dose (mSv)'', [PNum (Fin 3)]),
              (''Radionuclide'', [PStr ''Cs-137'']),
              (''Radius (km)'', [PNum (Fin (3 / 2))]),
              (''Latitude'', [PNum (Fin (- (168 / 5)))]),
              (''Longitude'', [PNum (Fin (92 / 5))]),
              (''Incident'', [PStr ''N/A'']),
              (''Timestamp'', [PStr ''N/A''])]\<rparr>"

text \<open>A TXT report without header lines, and the report of the first end-to-end scenario.\<close>

definition headerless_report :: string where
  "headerless_report = ''Zone;Dose (mSv);Radionuclide;Radius (km);Latitude;Longitude'' @ [CHR 0x0A]
     @ ''Zone A;12.5;I-131;5.0;-33.586;18.402''"

definition scenario1 :: string where
  "scenario1 = ''Incident: Test1'' @ [CHR 0x0A] @ ''Timestamp: 2024-01-01 00:00:00'' @ [CHR 0x0A]
     @ ''Zone;Dose (mSv);Radionuclide;Radius (km);Latitude;Longitude'' @ [CHR 0x0A]
     @ ''Zone A;12.5;I-131;5.0;-33.586;18.402''"

text \<open>A CSV file whose two rows name different incidents, and the frame \<open>pd.read_csv\<close> decodes it to.\<close>

definition two_incidents_csv :: string where
  "two_incidents_csv =
     ''Zone,Dose (mSv),Radionuclide,Radius (km),Latitude,Longitude,Incident,Timestamp'' @ [CHR 0x0A]
     @ ''Zone A,12.5,I-131,5.0,-33.586,18.402,Alpha,2024-01-01 00:00:00'' @ [CHR 0x0A]
     @ ''Zone B,3.0,Cs-137,2.0,-33.59,18.41,Beta,2024-01-02 00:00:00''"

definition two_incidents_frame :: dataframe where
  "two_incidents_frame =
     \<lparr>n_rows = 2,
      cols = [(''Zone'', [PStr ''Zone A'', PStr ''Zone B'']),
              (''Dose (mSv)'', [PNum (Fin (25 / 2)), PNum (Fin 3)]),
              (''Radionuclide'', [PStr ''I-131'', PStr ''Cs-137'']),
              (''Radius (km)'', [PNum (Fin 5), PNum (Fin 2)]),
              (''Latitude'', [PNum (Fin (- (16793 / 500))), PNum (Fin (- (3359 / 100)))]),
              (''Longitude'', [PNum (Fin (9201 / 500)), PNum (Fin (1841 / 100))]),
              (''Incident'', [PStr ''Alpha'', PStr ''Beta'']),
              (''Timestamp'', [PStr ''2024-01-01 00:00:00'', PStr ''2024-01-02 00:00:00''])]\<rparr>"

text \<open>
  A report in which the last line holding the timestamp key also holds the incident key,
  and the record set the parser returns for it.
\<close>

definition late_both_keys :: string where
  "late_both_keys = ''Timestamp: 10:00'' @ [CHR 0x0A] @ ''Incident: X Timestamp: 11:00'' @ [CHR 0x0A]
     @ ''Zone A;12.5;I-131;5.0;-33.586;18.402''"

definition late_both_keys_frame :: dataframe where
  "late_both_keys_frame =
     \<lparr>n_rows = 1,
      cols = [(''Zone'', [PStr ''Zone A'']),
              (''Dose (mSv)'', [PNum (Fin (25 / 2))]),
              (''Radionuclide'', [PStr ''I-131'']),
              (''Radius (km)'', [PNum (Fin 5)]),
              (''Latitude'', [PNum (Fin (- (16793 / 500)))]),
              (''Longitude'', [PNum (Fin (9201 / 500))]),
              (''Incident'', [PStr ''X Timestamp: 11:00'']),
              (''Timestamp'', [PStr ''10:00''])]\<rparr>"

section \<open>The dose ladder\<close>

lemma get_action_num:
  "get_action (PNum d) =
     Inr (PStr (if float_ge d 10 then ''Evacuate''
                else if float_ge d 5 then ''Shelter-in-Place''
                else if float_ge d 1 then ''Monitor & Advise''
                else ''No Immediate Action''))"
  by (simp add: get_action_def EVACUATE_THRESHOLD_def SHELTER_THRESHOLD_def MONITOR_THRESHOLD_def)

lemma float_ge_mono: "float_ge d t \<Longrightarrow> t' \<le> t \<Longrightarrow> float_ge d t'"
  by (cases d) auto

lemma float_lt_not_ge: "float_lt d t \<Longrightarrow> \<not> float_ge d t"
  by (cases d) auto

lemma get_action_in_names: "\<exists>a \<in> set action_names. get_action (PNum d) = Inr (PStr a)"
  by (simp add: get_action_num action_names_def)

lemma get_color_actions:
  "get_color (PStr ''Evacuate'') = PStr ''red''"
  "get_color (PStr ''Shelter-in-Place'') = PStr ''orange''"
  "get_color (PStr ''Monitor & Advise'') = PStr ''yellow''"
  "get_color (PStr ''No Immediate Action'') = PStr ''green''"
  by (simp_all add: get_color_def)

lemma get_color_inj: "inj_on get_color (PStr ` set action_names)"
  by (simp add: inj_on_def action_names_def get_color_def)

text \<open>
  Claim C1. For every numeric dose the action is one of the four values, chosen by the
  ladder with inclusive lower bounds 10, 5 and 1 (a dose of exactly 5 gives
  Shelter-in-Place), and the colour is a one-to-one function of the action: red, orange,
  yellow, green.
\<close>

theorem dose_ladder:
  "(\<exists>a \<in> set action_names. get_action (PNum d) = Inr (PStr a))
   \<and> (float_ge d 10 \<longrightarrow> get_action (PNum d) = Inr (PStr ''Evacuate''))
   \<and> (float_ge d 5 \<and> float_lt d 10 \<longrightarrow> get_action (PNum d) = Inr (PStr ''Shelter-in-Place''))
   \<and> (float_ge d 1 \<and> float_lt d 5 \<longrightarrow> get_action (PNum d) = Inr (PStr ''Monitor & Advise''))
   \<and> (float_lt d 1 \<longrightarrow> get_action (PNum d) = Inr (PStr ''No Immediate Action''))
   \<and> get_action (PNum (Fin 5)) = Inr (PStr ''Shelter-in-Place'')
   \<and> get_color (PStr ''Evacuate'') = PStr ''red''
   \<and> get_color (PStr ''Shelter-in-Place'') = PStr ''orange''
   \<and> get_color (PStr ''Monitor & Advise'') = PStr ''yellow''
   \<and> get_color (PStr ''No Immediate Action'') = PStr ''green''
   \<and> inj_on get_color (PStr ` set action_names)"
proof -
  have ev: "float_ge d 10 \<longrightarrow> get_action (PNum d) = Inr (PStr ''Evacuate'')"
    by (simp add: get_action_num)
  have sh: "float_ge d 5 \<and> float_lt d 10 \<longrightarrow> get_action (PNum d) = Inr (PStr ''Shelter-in-Place'')"
    using float_lt_not_ge [of d 10] by (auto simp add: get_action_num)
  have mo: "float_ge d 1 \<and> float_lt d 5 \<longrightarrow> get_action (PNum d) = Inr (PStr ''Monitor & Advise'')"
    using float_lt_not_ge [of d 5] float_ge_mono [of d 10 5] by (auto simp add: get_action_num)
  have no: "float_lt d 1 \<longrightarrow> get_action (PNum d) = Inr (PStr ''No Immediate Action'')"
    using float_lt_not_ge [of d 1] float_ge_mono [of d 10 1] float_ge_mono [of d 5 1]
    by (auto simp add: get_action_num)
  have b: "get_action (PNum (Fin 5)) = Inr (PStr ''Shelter-in-Place'')"
    by (simp add: get_action_num)
  show ?thesis
    using ev sh mo no b get_action_in_names [of d] get_color_actions get_color_inj by blast
qed

theorem dose_ladder_witness:
  "get_action (PNum (Fin 12)) = Inr (PStr ''Evacuate'')
   \<and> get_action (PNum (Fin 7)) = Inr (PStr ''Shelter-in-Place'')
   \<and> get_action (PNum (Fin 3)) = Inr (PStr ''Monitor & Advise'')
   \<and> get_action (PNum (Fin (1 / 2))) = Inr (PStr ''No Immediate Action'')"
  using dose_ladder [of "Fin 12"] dose_ladder [of "Fin 7"] dose_ladder [of "Fin 3"]
    dose_ladder [of "Fin (1 / 2)"]
  by simp

text \<open>
  Claim C9. The colour function has a catch-all branch: every value other than the three
  actions Evacuate, Shelter-in-Place and Monitor & Advise is coloured green, and no
  error is raised.
\<close>

theorem get_color_default:
  "action \<notin> {PStr ''Evacuate'', PStr ''Shelter-in-Place'', PStr ''Monitor & Advise''}
   \<Longrightarrow> get_color action = PStr ''green''"
  by (simp add: get_color_def)

theorem get_color_default_witness:
  "get_color (PStr ''Stand by'') = PStr ''green'' \<and> get_color PNone = PStr ''green''"
  using get_color_default [of "PStr ''Stand by''"] get_color_default [of PNone] by simp

section \<open>The decision engine\<close>

lemma apply_get_action_numeric:
  "list_all is_number doses \<Longrightarrow> \<exists>acts. apply_series get_action doses = Inr acts \<and> length acts = length doses"
proof (induction doses)
  case Nil
  then show ?case by simp
next
  case (Cons v vs)
  from Cons.prems obtain d where v: "v = PNum d"
    by (cases v) (auto simp add: is_number_def)
  from Cons obtain acts where a: "apply_series get_action vs = Inr acts" "length acts = length vs"
    by auto
  show ?case using v a by (simp add: get_action_num)
qed

lemma getitem_setitem_same: "getitem (setitem df k vs) k = Inr vs"
  by (simp add: getitem_def setitem_def update_conv')

lemma n_rows_setitem: "n_rows (setitem df k vs) = n_rows df"
  by (simp add: setitem_def)

lemma engine_empty: "empty_frame (s ! df) \<Longrightarrow> recommend_protective_actions s df = Inr (s, df)"
  by (simp add: recommend_protective_actions_def)

lemma engine_numeric:
  assumes r: "df < length s" and ne: "\<not> empty_frame (s ! df)" and num: "numeric_dose (s ! df)"
  shows "\<exists>doses acts. getitem (s ! df) ''Dose (mSv)'' = Inr doses
           \<and> apply_series get_action doses = Inr acts
           \<and> recommend_protective_actions s df =
               Inr (s[df := setitem (setitem (s ! df) ''Recommended Action'' acts)
                              ''Action Color'' (map get_color acts)], df)"
proof -
  from num obtain doses where d: "map_of (cols (s ! df)) ''Dose (mSv)'' = Some doses"
    and n: "list_all is_number doses"
    by (auto simp add: numeric_dose_def split: option.splits)
  from apply_get_action_numeric [OF n] obtain acts where a: "apply_series get_action doses = Inr acts"
    by blast
  have g: "getitem (s ! df) ''Dose (mSv)'' = Inr doses"
    using d by (simp add: getitem_def)
  show ?thesis
    using r ne g a by (simp add: recommend_protective_actions_def getitem_setitem_same)
qed

lemma zone_a_numeric: "numeric_dose zone_a_frame"
  by (simp add: numeric_dose_def zone_a_frame_def is_number_def)

lemma zone_a_nonempty: "\<not> empty_frame zone_a_frame"
  by (simp add: empty_frame_def zone_a_frame_def)

lemma no_zones_empty: "empty_frame no_zones"
  by (simp add: empty_frame_def no_zones_def)

text \<open>
  Claim C2. On a record set whose doses are numbers the decision engine raises nothing
  and returns a record set with as many records as it was given; an empty record set
  is returned unchanged, without error.
\<close>

theorem engine_total_same_count:
  "(empty_frame (s ! df) \<longrightarrow> recommend_protective_actions s df = Inr (s, df))
   \<and> (df < length s \<and> numeric_dose (s ! df) \<longrightarrow>
        (\<exists>s'. recommend_protective_actions s df = Inr (s', df)
              \<and> n_rows (s' ! df) = n_rows (s ! df)))"
proof (intro conjI impI)
  show "empty_frame (s ! df) \<Longrightarrow> recommend_protective_actions s df = Inr (s, df)"
    by (rule engine_empty)
next
  assume h: "df < length s \<and> numeric_dose (s ! df)"
  show "\<exists>s'. recommend_protective_actions s df = Inr (s', df) \<and> n_rows (s' ! df) = n_rows (s ! df)"
  proof (cases "empty_frame (s ! df)")
    case True
    then show ?thesis by (simp add: engine_empty)
  next
    case False
    from engine_numeric [of df s] h False obtain acts where
      "recommend_protective_actions s df =
               Inr (s[df := setitem (setitem (s ! df) ''Recommended Action'' acts)
                              ''Action Color'' (map get_color acts)], df)"
      by blast
    then show ?thesis using h by (simp add: n_rows_setitem)
  qed
qed


theorem engine_total_same_count_witness:
  "(0::nat) < length [zone_a_frame] \<and> numeric_dose ([zone_a_frame] ! 0)
   \<and> (\<exists>s'. recommend_protective_actions [zone_a_frame] 0 = Inr (s', 0)
             \<and> n_rows (s' ! 0) = n_rows ([zone_a_frame] ! 0))
   \<and> empty_frame ([no_zones] ! 0)
   \<and> recommend_protective_actions [no_zones] 0 = Inr ([no_zones], 0)"
  using engine_total_same_count [of "[zone_a_frame]" 0] engine_total_same_count [of "[no_zones]" 0]
    zone_a_numeric no_zones_empty
  by simp

lemma engine_zone_a:
  "recommend_protective_actions [zone_a_frame] 0 = Inr ([zone_a_recommended], 0)"
  by (simp add: recommend_protective_actions_def empty_frame_def getitem_def setitem_def
      zone_a_frame_def zone_a_recommended_def get_action_num get_color_def)

text \<open>
  Claim C3 as stated fails: the engine assigns the derived columns to the object it was
  given, so after the call the caller's record set holds ten columns instead of eight.
\<close>

theorem engine_mutates_input:
  "recommend_protective_actions [zone_a_frame] 0 = Inr ([zone_a_recommended], 0)
   \<and> [zone_a_recommended] ! 0 \<noteq> zone_a_frame"
  using engine_zone_a by (simp add: zone_a_frame_def zone_a_recommended_def)

lemma getitem_setitem_other: "k' \<noteq> k \<Longrightarrow> getitem (setitem df k vs) k' = getitem df k'"
  by (simp add: getitem_def setitem_def update_conv')

text \<open>
  Claim C3, amended. On a non-empty record set with numeric doses the engine writes the
  two derived columns into the record set it was given and returns that same record
  set: no copy is made. The record count, every other column and every other object
  stay as they were, and an empty record set is returned untouched. The application
  calls the engine on a copy, and through that call site the caller's record set is
  left unchanged.
\<close>

theorem engine_updates_in_place:
  "(df < length s \<and> \<not> empty_frame (s ! df) \<and> numeric_dose (s ! df) \<longrightarrow>
      (\<exists>s' doses acts.
         recommend_protective_actions s df = Inr (s', df)
         \<and> length s' = length s
         \<and> (\<forall>r. r \<noteq> df \<longrightarrow> s' ! r = s ! r)
         \<and> n_rows (s' ! df) = n_rows (s ! df)
         \<and> getitem (s ! df) ''Dose (mSv)'' = Inr doses
         \<and> apply_series get_action doses = Inr acts
         \<and> getitem (s' ! df) ''Recommended Action'' = Inr acts
         \<and> getitem (s' ! df) ''Action Color'' = Inr (map get_color acts)
         \<and> (\<forall>k. k \<noteq> ''Recommended Action'' \<and> k \<noteq> ''Action Color'' \<longrightarrow>
                getitem (s' ! df) k = getitem (s ! df) k)))
   \<and> (empty_frame (s ! df) \<longrightarrow> recommend_protective_actions s df = Inr (s, df))
   \<and> (parsed_data < length s \<and> numeric_dose (s ! parsed_data) \<longrightarrow>
        (\<exists>s'. recommend_on_copy s parsed_data = Inr (s', length s)
              \<and> (\<forall>r < length s. s' ! r = s ! r)))"
proof (intro conjI impI)
  assume h: "df < length s \<and> \<not> empty_frame (s ! df) \<and> numeric_dose (s ! df)"
  from engine_numeric [of df s] h obtain doses acts where
    d: "getitem (s ! df) ''Dose (mSv)'' = Inr doses" and
    a: "apply_series get_action doses = Inr acts" and
    e: "recommend_protective_actions s df =
          Inr (s[df := setitem (setitem (s ! df) ''Recommended Action'' acts)
                         ''Action Color'' (map get_color acts)], df)"
    by blast
  let ?s' = "s[df := setitem (setitem (s ! df) ''Recommended Action'' acts)
                         ''Action Color'' (map get_color acts)]"
  have at: "?s' ! df = setitem (setitem (s ! df) ''Recommended Action'' acts)
                         ''Action Color'' (map get_color acts)"
    using h by simp
  have 1: "length ?s' = length s" by simp
  have 2: "\<forall>r. r \<noteq> df \<longrightarrow> ?s' ! r = s ! r" by simp
  have 3: "n_rows (?s' ! df) = n_rows (s ! df)" by (simp add: at n_rows_setitem)
  have 4: "getitem (?s' ! df) ''Recommended Action'' = Inr acts"
    by (simp add: at getitem_setitem_other getitem_setitem_same)
  have 5: "getitem (?s' ! df) ''Action Color'' = Inr (map get_color acts)"
    by (simp add: at getitem_setitem_same)
  have 6: "\<forall>k. k \<noteq> ''Recommended Action'' \<and> k \<noteq> ''Action Color'' \<longrightarrow>
                getitem (?s' ! df) k = getitem (s ! df) k"
    by (simp add: at getitem_setitem_other)
  show "\<exists>s' doses acts.
         recommend_protective_actions s df = Inr (s', df)
         \<and> length s' = length s
         \<and> (\<forall>r. r \<noteq> df \<longrightarrow> s' ! r = s ! r)
         \<and> n_rows (s' ! df) = n_rows (s ! df)
         \<and> getitem (s ! df) ''Dose (mSv)'' = Inr doses
         \<and> apply_series get_action doses = Inr acts
         \<and> getitem (s' ! df) ''Recommended Action'' = Inr acts
         \<and> getitem (s' ! df) ''Action Color'' = Inr (map get_color acts)
         \<and> (\<forall>k. k \<noteq> ''Recommended Action'' \<and> k \<noteq> ''Action Color'' \<longrightarrow>
                getitem (s' ! df) k = getitem (s ! df) k)"
    using e 1 2 3 d a 4 5 6 by blast
next
  show "empty_frame (s ! df) \<Longrightarrow> recommend_protective_actions s df = Inr (s, df)"
    by (rule engine_empty)
next
  assume h: "parsed_data < length s \<and> numeric_dose (s ! parsed_data)"
  let ?c = "s @ [s ! parsed_data]"
  have c: "?c ! length s = s ! parsed_data" by simp
  show "\<exists>s'. recommend_on_copy s parsed_data = Inr (s', length s) \<and> (\<forall>r < length s. s' ! r = s ! r)"
  proof (cases "empty_frame (s ! parsed_data)")
    case True
    then have "recommend_on_copy s parsed_data = Inr (?c, length s)"
      by (simp add: recommend_on_copy_def copy_frame_def engine_empty)
    then show ?thesis by (simp add: nth_append)
  next
    case False
    from engine_numeric [of "length s" ?c] h False c obtain acts where
      e: "recommend_protective_actions ?c (length s) =
          Inr (?c[length s := setitem (setitem (?c ! length s) ''Recommended Action'' acts)
                         ''Action Color'' (map get_color acts)], length s)"
      by auto
    have "recommend_on_copy s parsed_data =
          Inr (?c[length s := setitem (setitem (?c ! length s) ''Recommended Action'' acts)
                         ''Action Color'' (map get_color acts)], length s)"
      using e by (simp add: recommend_on_copy_def copy_frame_def)
    then show ?thesis by (simp add: nth_append)
  qed
qed

theorem engine_updates_in_place_witness:
  "(0::nat) < length [zone_a_frame] \<and> \<not> empty_frame ([zone_a_frame] ! 0)
   \<and> numeric_dose ([zone_a_frame] ! 0)
   \<and> (\<exists>s'. recommend_protective_actions [zone_a_frame] 0 = Inr (s', 0)
         \<and> getitem (s' ! 0) ''Zone'' = getitem zone_a_frame ''Zone'')
   \<and> empty_frame ([no_zones] ! 0)
   \<and> recommend_protective_actions [no_zones] 0 = Inr ([no_zones], 0)
   \<and> (\<exists>s'. recommend_on_copy [zone_a_frame] 0 = Inr (s', 1) \<and> s' ! 0 = zone_a_frame)"
proof -
  have h: "(0::nat) < length [zone_a_frame] \<and> \<not> empty_frame ([zone_a_frame] ! 0)
           \<and> numeric_dose ([zone_a_frame] ! 0)"
    using zone_a_numeric zone_a_nonempty by simp
  have e: "empty_frame ([no_zones] ! 0)" using no_zones_empty by simp
  show ?thesis
    using h e engine_updates_in_place [of 0 "[zone_a_frame]" 0]
      engine_updates_in_place [of 0 "[no_zones]" 0]
    by auto
qed


section \<open>The TXT parser, line by line\<close>

lemma py_float_Some: "py_float f (Some s) = Inr x \<longleftrightarrow> f s = Some x"
  by (simp split: option.splits)

lemma py_float_Some_err: "py_float f (Some s) = Inl e \<longleftrightarrow> f s = None \<and> e = ValueError"
  by (auto split: option.splits)

lemma txt_row_error: "txt_row f parts = Inl e \<Longrightarrow> e = ValueError"
  by (auto simp add: txt_row_def split: sum.splits option.splits)

lemma txt_row_keys: "txt_row f parts = Inr r \<Longrightarrow> map fst r = zone_keys"
  by (auto simp add: txt_row_def zone_keys_def split: sum.splits)

lemma txt_row_ok_iff:
  "(\<exists>r. txt_row f parts = Inr r) \<longleftrightarrow> list_all (\<lambda>i. f (strip (parts ! i)) \<noteq> None) [1, 3, 4, 5]"
  by (auto simp add: txt_row_def split: sum.splits option.splits)

lemma txt_record_iff: "txt_record f line \<noteq> None \<longleftrightarrow> well_formed_line f line"
proof (cases "length (split_on '';'' line) = 6")
  case True
  have "txt_record f line \<noteq> None \<longleftrightarrow> (\<exists>r. txt_row f (split_on '';'' line) = Inr r)"
    using True by (auto simp add: txt_record_def split: sum.splits)
  then show ?thesis using True txt_row_ok_iff [of f "split_on '';'' line"]
    by (simp add: well_formed_line_def)
next
  case False
  then show ?thesis by (simp add: txt_record_def well_formed_line_def)
qed

lemma txt_warning_iff: "txt_warning f line \<noteq> None \<longleftrightarrow> \<not> well_formed_line f line"
  using txt_record_iff [of f line]
  by (auto simp add: txt_record_def txt_warning_def split: sum.splits if_splits)

lemma txt_loop_step:
  "txt_loop f (line # rest) data ws =
     txt_loop f rest (data @ (case txt_record f line of None \<Rightarrow> [] | Some r \<Rightarrow> [r]))
       (ws @ (case txt_warning f line of None \<Rightarrow> [] | Some w \<Rightarrow> [w]))"
  using txt_row_error [of f "split_on '';'' line"]
  by (auto simp add: txt_record_def txt_warning_def Let_def split: sum.splits)

lemma txt_loop_eq:
  "txt_loop f ls data ws =
     Inr (data @ List.map_filter (txt_record f) ls, ws @ List.map_filter (txt_warning f) ls)"
proof (induction ls arbitrary: data ws)
  case Nil
  then show ?case by simp
next
  case (Cons line rest)
  show ?case
    unfolding txt_loop_step Cons.IH
    by (simp split: option.splits)
qed

lemma parse_txt_eq:
  "parse_txt f c =
     Inr (setitem_scalar
            (setitem_scalar (DataFrame (List.map_filter (txt_record f) (txt_data_lines c)))
               ''Incident'' (PStr (fst (txt_headers c))))
            ''Timestamp'' (PStr (snd (txt_headers c))),
          List.map_filter (txt_warning f) (txt_data_lines c))"
  by (cases "txt_data_lines c = []") (simp_all add: parse_txt_def txt_loop_eq split_beta Let_def)

lemma count_txt_records:
  "length (List.map_filter (txt_record f) ls) = length (filter (well_formed_line f) ls)"
  by (induction ls) (auto simp add: txt_record_iff [symmetric] split: option.splits)

lemma count_txt_warnings:
  "length (List.map_filter (txt_warning f) ls) = length (filter (\<lambda>l. \<not> well_formed_line f l) ls)"
proof (induction ls)
  case Nil
  then show ?case by simp
next
  case (Cons l ls)
  then show ?case using txt_warning_iff [of f l] by (cases "txt_warning f l") auto
qed

lemma n_rows_parsed:
  "n_rows (setitem_scalar (setitem_scalar (DataFrame data) k v) k' v') = length data"
  by (simp add: setitem_scalar_def setitem_def DataFrame_def)

text \<open>
  Claim C4. A data line that splits into six fields whose four numeric fields read as
  numbers adds exactly one record and no warning; any other data line adds no record
  and exactly one warning. Over a whole report the parser never fails, the records are
  as many as the well-formed data lines and the warnings as many as the others.
\<close>

theorem txt_line_outcome:
  "(well_formed_line f line \<longrightarrow> (\<exists>r. txt_loop f [line] data ws = Inr (data @ [r], ws)))
   \<and> (\<not> well_formed_line f line \<longrightarrow> (\<exists>w. txt_loop f [line] data ws = Inr (data, ws @ [w])))
   \<and> (\<exists>df ws'. parse_txt f c = Inr (df, ws')
         \<and> n_rows df = length (filter (well_formed_line f) (txt_data_lines c))
         \<and> length ws' = length (filter (\<lambda>l. \<not> well_formed_line f l) (txt_data_lines c)))"
proof (intro conjI impI)
  assume "well_formed_line f line"
  then obtain r where "txt_record f line = Some r" "txt_warning f line = None"
    using txt_record_iff [of f line] txt_warning_iff [of f line] by auto
  then show "\<exists>r. txt_loop f [line] data ws = Inr (data @ [r], ws)"
    by (simp add: txt_loop_eq)
next
  assume "\<not> well_formed_line f line"
  then obtain w where "txt_record f line = None" "txt_warning f line = Some w"
    using txt_record_iff [of f line] txt_warning_iff [of f line] by auto
  then show "\<exists>w. txt_loop f [line] data ws = Inr (data, ws @ [w])"
    by (simp add: txt_loop_eq)
next
  show "\<exists>df ws'. parse_txt f c = Inr (df, ws')
         \<and> n_rows df = length (filter (well_formed_line f) (txt_data_lines c))
         \<and> length ws' = length (filter (\<lambda>l. \<not> well_formed_line f l) (txt_data_lines c))"
    by (simp add: parse_txt_eq n_rows_parsed count_txt_records count_txt_warnings)
qed

lemma good_wf: "well_formed_line decimal_literal good_line"
  by code_simp

lemma bad_wf: "\<not> well_formed_line decimal_literal bad_dose_line"
  by code_simp

lemma short_wf: "\<not> well_formed_line decimal_literal short_line"
  by code_simp

theorem txt_line_outcome_witness:
  "well_formed_line decimal_literal good_line
   \<and> (\<exists>r. txt_loop decimal_literal [good_line] [] [] = Inr ([] @ [r], []))
   \<and> \<not> well_formed_line decimal_literal bad_dose_line
   \<and> (\<exists>w. txt_loop decimal_literal [bad_dose_line] [] [] = Inr ([], [] @ [w]))
   \<and> \<not> well_formed_line decimal_literal short_line
   \<and> (\<exists>w. txt_loop decimal_literal [short_line] [] [] = Inr ([], [] @ [w]))"
  using good_wf bad_wf short_wf
    txt_line_outcome [of decimal_literal good_line "[]" "[]"]
    txt_line_outcome [of decimal_literal bad_dose_line "[]" "[]"]
    txt_line_outcome [of decimal_literal short_line "[]" "[]"]
  by blast

section \<open>The header scan\<close>

lemma split_on_nonempty: "split_on sep s \<noteq> []"
  by (induction sep s rule: split_on.induct) (auto split: list.splits)

lemma split_on_second:
  "sublist key h \<Longrightarrow> key \<noteq> [] \<Longrightarrow> 1 < length (split_on key h)"
proof (induction key h rule: split_on.induct)
  case (1 sep)
  then show ?case by simp
next
  case (2 sep c cs)
  show ?case
  proof (cases "prefix sep (c # cs)")
    case True
    then show ?thesis
      using split_on_nonempty [of sep "drop (length sep - 1) cs"]
      by (cases "split_on sep (drop (length sep - 1) cs)") auto
  next
    case False
    with "2.prems" have "sublist sep cs"
      by (cases sep) (auto simp add: sublist_Cons_right)
    with 2 False have "1 < length (split_on sep cs)" by simp
    with False show ?thesis by (auto split: list.splits)
  qed
qed

lemma key_has_colon:
  "sublist ''Incident:'' l \<Longrightarrow> CHR '':'' \<in> set l"
  "sublist ''Timestamp:'' l \<Longrightarrow> CHR '':'' \<in> set l"
  by (auto simp add: sublist_def)

lemma scan_fst_none:
  "\<forall>h\<in>set hs. \<not> sublist ''Incident:'' h \<Longrightarrow> fst (scan_headers hs (i, t)) = i"
  by (induction hs arbitrary: t) auto

lemma scan_fst_last:
  "sublist ''Incident:'' l \<Longrightarrow> \<forall>h\<in>set post. \<not> sublist ''Incident:'' h
   \<Longrightarrow> fst (scan_headers (pre @ l # post) (i, t)) = header_value ''Incident:'' l"
  by (induction pre arbitrary: i t) (auto simp add: scan_fst_none)

lemma scan_snd_none:
  "\<forall>h\<in>set hs. \<not> sets_timestamp h \<Longrightarrow> snd (scan_headers hs (i, t)) = t"
  by (induction hs arbitrary: i) (auto simp add: sets_timestamp_def)

lemma scan_snd_last:
  "sets_timestamp l \<Longrightarrow> \<forall>h\<in>set post. \<not> sets_timestamp h
   \<Longrightarrow> snd (scan_headers (pre @ l # post) (i, t)) = header_value ''Timestamp:'' l"
proof (induction pre arbitrary: i t)
  case Nil
  then show ?case by (simp add: sets_timestamp_def scan_snd_none)
next
  case (Cons a pre)
  then show ?case by simp
qed

lemma txt_headers_incident_last:
  assumes "txt_lines c = pre @ l # post" and "sublist ''Incident:'' l"
    and "\<forall>x\<in>set post. \<not> sublist ''Incident:'' x"
  shows "fst (txt_headers c) = header_value ''Incident:'' l"
proof -
  let ?P = "\<lambda>line. CHR '':'' \<in> set line"
  have "txt_header_lines c = filter ?P pre @ l # filter ?P post"
    using assms(1,2) key_has_colon(1) [of l] by (simp add: txt_header_lines_def)
  moreover have "\<forall>x\<in>set (filter ?P post). \<not> sublist ''Incident:'' x"
    using assms(3) by simp
  ultimately show ?thesis
    using assms(2) by (simp add: txt_headers_def scan_fst_last)
qed

lemma txt_headers_timestamp_last:
  assumes "txt_lines c = pre @ l # post" and "sets_timestamp l"
    and "\<forall>x\<in>set post. \<not> sets_timestamp x"
  shows "snd (txt_headers c) = header_value ''Timestamp:'' l"
proof -
  let ?P = "\<lambda>line. CHR '':'' \<in> set line"
  have "txt_header_lines c = filter ?P pre @ l # filter ?P post"
    using assms(1,2) key_has_colon(2) [of l] by (simp add: txt_header_lines_def sets_timestamp_def)
  moreover have "\<forall>x\<in>set (filter ?P post). \<not> sets_timestamp x"
    using assms(3) by simp
  ultimately show ?thesis
    using assms(2) by (simp add: txt_headers_def scan_snd_last)
qed

lemma txt_headers_no_incident:
  "\<forall>l\<in>set (txt_lines c). \<not> sublist ''Incident:'' l \<Longrightarrow> fst (txt_headers c) = []"
  by (simp add: txt_headers_def txt_header_lines_def scan_fst_none)

lemma txt_headers_no_timestamp:
  "\<forall>l\<in>set (txt_lines c). \<not> sublist ''Timestamp:'' l \<Longrightarrow> snd (txt_headers c) = []"
  by (simp add: txt_headers_def txt_header_lines_def scan_snd_none sets_timestamp_def)

lemma late_both_keys_parsed:
  "txt_lines late_both_keys =
     [''Timestamp: 10:00'', ''Incident: X Timestamp: 11:00'', ''Zone A;12.5;I-131;5.0;-33.586;18.402'']"
  "sublist ''Timestamp:'' ''Incident: X Timestamp: 11:00''"
  "header_value ''Timestamp:'' ''Incident: X Timestamp: 11:00'' = ''11:00''"
  "\<not> sublist ''Timestamp:'' ''Zone A;12.5;I-131;5.0;-33.586;18.402''"
  "txt_headers late_both_keys = (''X Timestamp: 11:00'', ''10:00'')"
  "parse_txt decimal_literal late_both_keys = Inr (late_both_keys_frame, [])"
  by code_simp+

text \<open>
  Claim C10 as stated fails for the timestamp: the last line holding \<open>Timestamp:\<close> does
  not win when it also holds \<open>Incident:\<close>. Here that line gives 11:00, and the parser
  keeps 10:00 from the line before it.
\<close>

theorem last_timestamp_line_ignored:
  "txt_lines late_both_keys =
     [''Timestamp: 10:00'', ''Incident: X Timestamp: 11:00'', ''Zone A;12.5;I-131;5.0;-33.586;18.402'']
   \<and> sublist ''Timestamp:'' ''Incident: X Timestamp: 11:00''
   \<and> \<not> sublist ''Timestamp:'' ''Zone A;12.5;I-131;5.0;-33.586;18.402''
   \<and> header_value ''Timestamp:'' ''Incident: X Timestamp: 11:00'' = ''11:00''
   \<and> snd (txt_headers late_both_keys) = ''10:00''
   \<and> parse_txt decimal_literal late_both_keys = Inr (late_both_keys_frame, [])
   \<and> getitem late_both_keys_frame ''Timestamp'' = Inr [PStr ''10:00'']"
  using late_both_keys_parsed by (simp add: getitem_def late_both_keys_frame_def)

text \<open>
  Claim C10, amended. The header scan tests the two keys with an exclusive \<open>if\<close>/\<open>elif\<close>:
  a line holding both keys sets the incident only and leaves the timestamp as it was.
  When several lines hold \<open>Incident:\<close>, the value of the last of them wins. When several
  lines hold \<open>Timestamp:\<close>, the value of the last of them that does not also hold
  \<open>Incident:\<close> wins.
\<close>

theorem header_scan:
  "(sublist ''Incident:'' h \<and> sublist ''Timestamp:'' h \<longrightarrow>
      scan_headers (h # rest) (i, t) = scan_headers rest (header_value ''Incident:'' h, t))
   \<and> (txt_lines c = pre @ l # post \<and> sublist ''Incident:'' l
        \<and> (\<forall>x\<in>set post. \<not> sublist ''Incident:'' x) \<longrightarrow>
      fst (txt_headers c) = header_value ''Incident:'' l)
   \<and> (txt_lines c = pre @ l # post \<and> sets_timestamp l
        \<and> (\<forall>x\<in>set post. \<not> sets_timestamp x) \<longrightarrow>
      snd (txt_headers c) = header_value ''Timestamp:'' l)"
  using txt_headers_incident_last [of c pre l post] txt_headers_timestamp_last [of c pre l post]
  by simp

lemma two_headers_lines:
  "txt_lines two_headers =
     [''Incident: First Timestamp: 09:00'', ''Timestamp: 10:00''] @ ''Incident: Second''
       # [''Timestamp: 11:00'', ''Zone A;1;I-131;1;0;0'']"
  by code_simp

lemma two_headers_lines':
  "txt_lines two_headers =
     [''Incident: First Timestamp: 09:00'', ''Timestamp: 10:00'', ''Incident: Second''] @ ''Timestamp: 11:00''
       # [''Zone A;1;I-131;1;0;0'']"
  by code_simp

lemma both_keys:
  "sublist ''Incident:'' ''Incident: First Timestamp: 09:00'' \<and> sublist ''Timestamp:'' ''Incident: First Timestamp: 09:00''"
  by code_simp

lemma last_incident:
  "sublist ''Incident:'' ''Incident: Second''
   \<and> (\<forall>x\<in>set [''Timestamp: 11:00'', ''Zone A;1;I-131;1;0;0'']. \<not> sublist ''Incident:'' x)"
  by code_simp

lemma last_timestamp:
  "sets_timestamp ''Timestamp: 11:00''
   \<and> (\<forall>x\<in>set [''Zone A;1;I-131;1;0;0'']. \<not> sets_timestamp x)"
  by code_simp

lemma header_values:
  "header_value ''Incident:'' ''Incident: First Timestamp: 09:00'' = ''First Timestamp: 09:00''"
  "header_value ''Incident:'' ''Incident: Second'' = ''Second''"
  "header_value ''Timestamp:'' ''Timestamp: 11:00'' = ''11:00''"
  by code_simp+

theorem header_scan_witness:
  "scan_headers [''Incident: First Timestamp: 09:00''] ([], []) = (''First Timestamp: 09:00'', [])
   \<and> fst (txt_headers two_headers) = ''Second''
   \<and> snd (txt_headers two_headers) = ''11:00''"
  using both_keys last_incident last_timestamp two_headers_lines two_headers_lines' header_values
    header_scan [of "''Incident: First Timestamp: 09:00''" "[]" "[]" "[]" two_headers
      "[''Incident: First Timestamp: 09:00'', ''Timestamp: 10:00'']" "''Incident: Second''"
      "[''Timestamp: 11:00'', ''Zone A;1;I-131;1;0;0'']"]
    header_scan [of "''Incident: First Timestamp: 09:00''" "[]" "[]" "[]" two_headers
      "[''Incident: First Timestamp: 09:00'', ''Timestamp: 10:00'', ''Incident: Second'']" "''Timestamp: 11:00''"
      "[''Zone A;1;I-131;1;0;0'']"]
  by simp

section \<open>Records of a parsed report\<close>

lemma foldl_keys_seen:
  "\<forall>d\<in>set data. set (map fst d) \<subseteq> set seen \<Longrightarrow>
   foldl (\<lambda>seen d. seen @ filter (\<lambda>k. k \<notin> set seen) (map fst d)) seen data = seen"
proof (induction data)
  case Nil
  then show ?case by simp
next
  case (Cons d data)
  have "filter (\<lambda>k. k \<notin> set seen) (map fst d) = []"
    using Cons.prems by (auto simp add: filter_empty_conv)
  then show ?case using Cons by simp
qed

lemma union_keys_same:
  assumes "\<forall>d\<in>set data. map fst d = ks" and "data \<noteq> []"
  shows "union_keys data = ks"
proof (cases data)
  case Nil
  with assms show ?thesis by simp
next
  case (Cons d ds)
  have "\<forall>d\<in>set ds. set (map fst d) \<subseteq> set ks" using assms Cons by auto
  then show ?thesis
    using assms Cons foldl_keys_seen [of ds ks] by (simp add: union_keys_def)
qed

lemma update_fresh: "k \<notin> fst ` set al \<Longrightarrow> AList.update k v al = al @ [(k, v)]"
  by (induction al) auto

lemma cell_of_entry: "distinct (map fst r) \<Longrightarrow> p \<in> set r \<Longrightarrow> cell r (fst p) = snd p"
proof -
  assume "distinct (map fst r)" and "p \<in> set r"
  then have "map_of r (fst p) = Some (snd p)"
    by (intro map_of_is_SomeI) simp_all
  then show ?thesis by (simp add: cell_def)
qed

lemma row_of_cells: "distinct (map fst r) \<Longrightarrow> map (\<lambda>k. (k, cell r k)) (map fst r) = r"
proof -
  assume d: "distinct (map fst r)"
  have "map (\<lambda>p. (fst p, cell r (fst p))) r = map (\<lambda>p. p) r"
    using d by (intro map_cong) (simp_all add: cell_of_entry)
  then show ?thesis by (simp add: comp_def)
qed

lemma records_attached:
  assumes keys: "\<forall>d\<in>set data. map fst d = zone_keys"
  shows "records (setitem_scalar (setitem_scalar (DataFrame data) ''Incident'' i) ''Timestamp'' t)
         = map (attach i t) data"
proof (cases "data = []")
  case True
  then show ?thesis by (simp add: records_def setitem_scalar_def setitem_def DataFrame_def)
next
  case False
  let ?n = "length data"
  let ?base = "map (\<lambda>k. (k, map (\<lambda>d. cell d k) data)) zone_keys"
  have c0: "cols (DataFrame data) = ?base"
    using union_keys_same [OF keys False] by (simp add: DataFrame_def)
  have n0: "n_rows (DataFrame data) = ?n" by (simp add: DataFrame_def)
  have c2: "cols (setitem_scalar (setitem_scalar (DataFrame data) ''Incident'' i) ''Timestamp'' t)
            = ?base @ [(''Incident'', replicate ?n i), (''Timestamp'', replicate ?n t)]"
    by (simp add: setitem_scalar_def setitem_def c0 n0 zone_keys_def)
  have n: "n_rows (setitem_scalar (setitem_scalar (DataFrame data) ''Incident'' i) ''Timestamp'' t) = ?n"
    by (simp add: setitem_scalar_def setitem_def DataFrame_def)
  have row: "map (\<lambda>k. (k, cell d k)) zone_keys = d" if "d \<in> set data" for d
  proof -
    have "map fst d = zone_keys" using keys that by simp
    moreover have "distinct zone_keys" by (simp add: zone_keys_def)
    ultimately show ?thesis using row_of_cells [of d] by simp
  qed
  show ?thesis
  proof (rule nth_equalityI)
    show "length (records (setitem_scalar (setitem_scalar (DataFrame data) ''Incident'' i) ''Timestamp'' t))
          = length (map (attach i t) data)"
      by (simp add: records_def n)
  next
    fix j
    assume "j < length (records (setitem_scalar (setitem_scalar (DataFrame data) ''Incident'' i) ''Timestamp'' t))"
    then have j: "j < ?n" by (simp add: records_def n)
    then have "map (\<lambda>k. (k, cell (data ! j) k)) zone_keys = data ! j"
      using row [of "data ! j"] by simp
    then show "records (setitem_scalar (setitem_scalar (DataFrame data) ''Incident'' i) ''Timestamp'' t) ! j
          = map (attach i t) data ! j"
      using j by (simp add: records_def n c2 attach_def comp_def)
  qed
qed

lemma map_of_attach:
  "map fst r = zone_keys \<Longrightarrow>
   map_of (attach i t r) ''Incident'' = Some i \<and> map_of (attach i t r) ''Timestamp'' = Some t"
proof -
  assume k: "map fst r = zone_keys"
  have "''Incident'' \<notin> set (map fst r)" "''Timestamp'' \<notin> set (map fst r)"
    unfolding k by (simp_all add: zone_keys_def)
  then have "map_of r ''Incident'' = None" "map_of r ''Timestamp'' = None"
    by (simp_all add: map_of_eq_None_iff)
  then show ?thesis by (simp add: attach_def map_add_def)
qed

lemma same_incident_attached:
  assumes "records df = map (attach i t) data" and "\<forall>d\<in>set data. map fst d = zone_keys"
  shows "same_incident df"
proof (cases data)
  case Nil
  with assms show ?thesis by (simp add: same_incident_def)
next
  case (Cons d ds)
  then show ?thesis
    using assms map_of_attach [of _ i t]
    by (simp add: same_incident_def list_all_iff)
qed

lemma txt_record_keys: "\<forall>d\<in>set (List.map_filter (txt_record f) ls). map fst d = zone_keys"
proof (induction ls)
  case Nil
  then show ?case by simp
next
  case (Cons l ls)
  show ?case
  proof (cases "txt_record f l")
    case None
    with Cons show ?thesis by simp
  next
    case (Some r)
    then have "map fst r = zone_keys"
      using txt_row_keys [of f "split_on '';'' l" r]
      by (auto simp add: txt_record_def split: if_splits sum.splits)
    with Cons Some show ?thesis by simp
  qed
qed

section \<open>The XML parser, element by element\<close>

lemma py_float_error: "py_float f v = Inl e \<Longrightarrow> e = TypeError \<or> e = ValueError"
  by (cases v) (auto split: option.splits)

lemma xml_row_error: "xml_row f z = Inl e \<Longrightarrow> e = TypeError \<or> e = ValueError"
  using py_float_error [of f _ e]
  by (auto simp add: xml_row_def split: sum.splits)

lemma xml_row_keys: "xml_row f z = Inr r \<Longrightarrow> map fst r = zone_keys"
  by (auto simp add: xml_row_def zone_keys_def split: sum.splits)

lemma py_float_ok_iff:
  "(\<exists>x. py_float f v = Inr x) \<longleftrightarrow> (case v of None \<Rightarrow> False | Some s \<Rightarrow> f s \<noteq> None)"
  by (cases v) (auto split: option.splits)

lemma xml_row_ok_iff: "(\<exists>r. xml_row f z = Inr r) \<longleftrightarrow> numeric_attributes f z"
proof -
  have "(\<exists>r. xml_row f z = Inr r) \<longleftrightarrow>
        (\<exists>a. py_float f (get_attr z ''dose_mSv'') = Inr a)
        \<and> (\<exists>b. py_float f (get_attr z ''radius_km'') = Inr b)
        \<and> (\<exists>c. py_float f (get_attr z ''latitude'') = Inr c)
        \<and> (\<exists>d. py_float f (get_attr z ''longitude'') = Inr d)"
    by (auto simp add: xml_row_def split: sum.splits)
  then show ?thesis
    unfolding py_float_ok_iff by (simp add: numeric_attributes_def)
qed

lemma xml_record_iff: "xml_record f z \<noteq> None \<longleftrightarrow> numeric_attributes f z"
  using xml_row_ok_iff [of f z] by (auto simp add: xml_record_def split: sum.splits)

lemma xml_warning_iff: "xml_warning f z \<noteq> None \<longleftrightarrow> \<not> numeric_attributes f z"
  using xml_row_ok_iff [of f z] by (auto simp add: xml_warning_def split: sum.splits)

lemma xml_record_fields:
  "xml_record f z = Some r \<Longrightarrow>
     map_of r ''Zone'' = Some (opt_str (get_attr z ''name''))
     \<and> map_of r ''Radionuclide'' = Some (opt_str (get_attr z ''radionuclide''))"
  by (auto simp add: xml_record_def xml_row_def split: sum.splits)

lemma xml_loop_step:
  "xml_loop f (z # rest) data ws =
     xml_loop f rest (data @ (case xml_record f z of None \<Rightarrow> [] | Some r \<Rightarrow> [r]))
       (ws @ (case xml_warning f z of None \<Rightarrow> [] | Some w \<Rightarrow> [w]))"
  using xml_row_error [of f z]
  by (auto simp add: xml_record_def xml_warning_def split: sum.splits)

lemma xml_loop_eq:
  "xml_loop f zs data ws =
     Inr (data @ List.map_filter (xml_record f) zs, ws @ List.map_filter (xml_warning f) zs)"
proof (induction zs arbitrary: data ws)
  case Nil
  then show ?case by simp
next
  case (Cons z rest)
  show ?case
    unfolding xml_loop_step Cons.IH
    by (simp split: option.splits)
qed

lemma parse_xml_root_eq:
  "parse_xml_root f r =
     Inr (setitem_scalar
            (setitem_scalar (DataFrame (List.map_filter (xml_record f) (findall_below ''Zone'' r)))
               ''Incident'' (xml_incident r))
            ''Timestamp'' (xml_timestamp r),
          List.map_filter (xml_warning f) (findall_below ''Zone'' r))"
  by (simp add: parse_xml_root_def xml_loop_eq xml_incident_def xml_timestamp_def Let_def)

lemma count_xml_records:
  "length (List.map_filter (xml_record f) zs) = length (filter (numeric_attributes f) zs)"
  by (induction zs) (auto simp add: xml_record_iff [symmetric] split: option.splits)

lemma count_xml_warnings:
  "length (List.map_filter (xml_warning f) zs) = length (filter (\<lambda>z. \<not> numeric_attributes f z) zs)"
proof (induction zs)
  case Nil
  then show ?case by simp
next
  case (Cons z zs)
  then show ?case using xml_warning_iff [of f z] by (cases "xml_warning f z") auto
qed

lemma xml_record_keys: "\<forall>d\<in>set (List.map_filter (xml_record f) zs). map fst d = zone_keys"
proof (induction zs)
  case Nil
  then show ?case by simp
next
  case (Cons z zs)
  show ?case
  proof (cases "xml_record f z")
    case None
    with Cons show ?thesis by simp
  next
    case (Some r)
    then have "map fst r = zone_keys"
      using xml_row_keys [of f z r] by (auto simp add: xml_record_def split: sum.splits)
    with Cons Some show ?thesis by simp
  qed
qed

lemma nameless_parsed:
  "parse_xml (read_document nameless_xml nameless_doc) decimal_literal nameless_xml
     = Inr (nameless_frame, [])"
  by code_simp

text \<open>
  Claim C5 as stated fails for the attributes that are not numeric: a Zone element
  without a \<open>name\<close> attribute is not skipped. It gives a record whose zone is \<open>None\<close>, and
  no warning.
\<close>

theorem nameless_zone_kept:
  "get_attr nameless_zone ''name'' = None
   \<and> findall_below ''Zone'' nameless_doc = [nameless_zone]
   \<and> parse_xml (read_document nameless_xml nameless_doc) decimal_literal nameless_xml
       = Inr (nameless_frame, [])
   \<and> n_rows nameless_frame = 1"
  using nameless_parsed
  by (simp add: get_attr_def nameless_zone_def nameless_doc_def findall_below_def nameless_frame_def)

text \<open>
  Claim C5, amended. A Zone element in which one of the four numeric attributes
  (\<open>dose_mSv\<close>, \<open>radius_km\<close>, \<open>latitude\<close>, \<open>longitude\<close>) is missing or does not read as a
  number is skipped with one warning and contributes no record, and the loop goes on with
  the remaining Zone elements. A Zone element whose four numeric attributes read as
  numbers contributes one record even when \<open>name\<close> or \<open>radionuclide\<close> is missing; that
  field is then \<open>None\<close>. The parser never fails once the document is read.
\<close>

theorem xml_zone_outcome:
  "(\<not> numeric_attributes f z \<longrightarrow>
      (\<exists>e. xml_loop f (z # rest) data ws = xml_loop f rest data (ws @ [MalformedXmlZone (tag z) e])))
   \<and> (numeric_attributes f z \<longrightarrow>
      (\<exists>r. xml_loop f (z # rest) data ws = xml_loop f rest (data @ [r]) ws
           \<and> map_of r ''Zone'' = Some (opt_str (get_attr z ''name''))
           \<and> map_of r ''Radionuclide'' = Some (opt_str (get_attr z ''radionuclide''))))
   \<and> (fromstring file_content = Inr root_elem \<longrightarrow>
      (\<exists>df ws'. parse_xml fromstring f file_content = Inr (df, ws')
         \<and> n_rows df = length (filter (numeric_attributes f) (findall_below ''Zone'' root_elem))
         \<and> length ws' = length (filter (\<lambda>z. \<not> numeric_attributes f z) (findall_below ''Zone'' root_elem))))"
proof (intro conjI impI)
  assume "\<not> numeric_attributes f z"
  then obtain w where n: "xml_record f z = None" and w: "xml_warning f z = Some w"
    using xml_record_iff [of f z] xml_warning_iff [of f z] by auto
  from w obtain e where "w = MalformedXmlZone (tag z) e"
    by (auto simp add: xml_warning_def split: sum.splits)
  then show "\<exists>e. xml_loop f (z # rest) data ws = xml_loop f rest data (ws @ [MalformedXmlZone (tag z) e])"
    using n w by (auto simp del: xml_loop.simps simp add: xml_loop_step)
next
  assume "numeric_attributes f z"
  then obtain r where r: "xml_record f z = Some r" and w: "xml_warning f z = None"
    using xml_record_iff [of f z] xml_warning_iff [of f z] by auto
  then show "\<exists>r. xml_loop f (z # rest) data ws = xml_loop f rest (data @ [r]) ws
           \<and> map_of r ''Zone'' = Some (opt_str (get_attr z ''name''))
           \<and> map_of r ''Radionuclide'' = Some (opt_str (get_attr z ''radionuclide''))"
    using xml_record_fields [OF r] by (auto simp del: xml_loop.simps simp add: xml_loop_step)
next
  assume "fromstring file_content = Inr root_elem"
  then show "\<exists>df ws'. parse_xml fromstring f file_content = Inr (df, ws')
         \<and> n_rows df = length (filter (numeric_attributes f) (findall_below ''Zone'' root_elem))
         \<and> length ws' = length (filter (\<lambda>z. \<not> numeric_attributes f z) (findall_below ''Zone'' root_elem))"
    by (simp add: parse_xml_def parse_xml_root_eq n_rows_parsed count_xml_records count_xml_warnings)
qed

lemma mixed_counts:
  "length (filter (numeric_attributes decimal_literal) (findall_below ''Zone'' mixed_zones_doc)) = 2"
  "length (filter (\<lambda>z. \<not> numeric_attributes decimal_literal z) (findall_below ''Zone'' mixed_zones_doc)) = 2"
  by code_simp+

lemma example_zones:
  "\<not> numeric_attributes decimal_literal bad_dose_zone"
  "numeric_attributes decimal_literal nameless_zone"
  "tag bad_dose_zone = ''Zone''"
  by code_simp+

lemma read_document_same: "read_document text tree text = Inr tree"
  by (simp add: read_document_def)

theorem xml_zone_outcome_witness:
  "\<not> numeric_attributes decimal_literal bad_dose_zone
   \<and> (\<exists>e. xml_loop decimal_literal [bad_dose_zone] [] [] = Inr ([], [MalformedXmlZone ''Zone'' e]))
   \<and> numeric_attributes decimal_literal nameless_zone
   \<and> (\<exists>r. xml_loop decimal_literal [nameless_zone] [] [] = Inr ([r], [])
          \<and> map_of r ''Zone'' = Some PNone)
   \<and> read_document mixed_zones_xml mixed_zones_doc mixed_zones_xml = Inr mixed_zones_doc
   \<and> (\<exists>df ws'. parse_xml (read_document mixed_zones_xml mixed_zones_doc) decimal_literal mixed_zones_xml
                  = Inr (df, ws')
         \<and> n_rows df = 2 \<and> length ws' = 2)"
proof -
  have n: "opt_str (get_attr nameless_zone ''name'') = PNone"
    by (simp add: get_attr_def nameless_zone_def opt_str_def)
  show ?thesis
    using example_zones mixed_counts n read_document_same [of mixed_zones_xml mixed_zones_doc]
      xml_zone_outcome [where f = decimal_literal and z = bad_dose_zone and rest = "[]"
        and data = "[]" and ws = "[]" and fromstring = "read_document mixed_zones_xml mixed_zones_doc"
        and file_content = mixed_zones_xml and root_elem = mixed_zones_doc]
      xml_zone_outcome [where f = decimal_literal and z = nameless_zone and rest = "[]"
        and data = "[]" and ws = "[]" and fromstring = "read_document mixed_zones_xml mixed_zones_doc"
        and file_content = mixed_zones_xml and root_elem = mixed_zones_doc]
    by auto
qed

section \<open>Defaults, shared headers and the first scenario\<close>

lemma getitem_parsed:
  "getitem (setitem_scalar (setitem_scalar (DataFrame data) ''Incident'' i) ''Timestamp'' t) ''Incident''
     = Inr (replicate (length data) i)"
  "getitem (setitem_scalar (setitem_scalar (DataFrame data) ''Incident'' i) ''Timestamp'' t) ''Timestamp''
     = Inr (replicate (length data) t)"
  by (simp_all add: setitem_scalar_def getitem_setitem_same getitem_setitem_other n_rows_setitem
      DataFrame_def)

lemma xml_no_incident:
  "\<forall>e\<in>set (children r). tag e \<noteq> ''Incident'' \<Longrightarrow>
     xml_incident r = PStr ''N/A'' \<and> xml_timestamp r = PStr ''N/A''"
proof -
  assume "\<forall>e\<in>set (children r). tag e \<noteq> ''Incident''"
  then have "find_child ''Incident'' r = None"
    by (simp add: find_child_def find_None_iff)
  then show ?thesis by (simp add: xml_incident_def xml_timestamp_def)
qed

text \<open>
  Claim C6. A TXT report without a line holding \<open>Incident:\<close> gets the empty string as
  incident, and without a line holding \<open>Timestamp:\<close> the empty string as timestamp:
  the parser returns one record per well-formed data line, in order, each carrying that
  default. An XML document whose root has no \<open>Incident\<close> child gets the string N/A for
  both, on every record. The two defaults differ.
\<close>

theorem missing_header_defaults:
  "((\<forall>l\<in>set (txt_lines c). \<not> sublist ''Incident:'' l) \<longrightarrow>
      fst (txt_headers c) = []
      \<and> (\<exists>df ws. parse_txt f c = Inr (df, ws)
            \<and> getitem df ''Incident'' =
                Inr (replicate (length (filter (well_formed_line f) (txt_data_lines c))) (PStr []))
            \<and> records df =
                map (attach (PStr []) (PStr (snd (txt_headers c))))
                  (List.map_filter (txt_record f) (txt_data_lines c))))
   \<and> ((\<forall>l\<in>set (txt_lines c). \<not> sublist ''Timestamp:'' l) \<longrightarrow>
      snd (txt_headers c) = []
      \<and> (\<exists>df ws. parse_txt f c = Inr (df, ws)
            \<and> getitem df ''Timestamp'' =
                Inr (replicate (length (filter (well_formed_line f) (txt_data_lines c))) (PStr []))
            \<and> records df =
                map (attach (PStr (fst (txt_headers c))) (PStr []))
                  (List.map_filter (txt_record f) (txt_data_lines c))))
   \<and> (fromstring x = Inr root_elem \<and> (\<forall>e\<in>set (children root_elem). tag e \<noteq> ''Incident'') \<longrightarrow>
      (\<exists>df ws. parse_xml fromstring f x = Inr (df, ws)
            \<and> getitem df ''Incident'' =
                Inr (replicate (length (filter (numeric_attributes f) (findall_below ''Zone'' root_elem)))
                       (PStr ''N/A''))
            \<and> getitem df ''Timestamp'' =
                Inr (replicate (length (filter (numeric_attributes f) (findall_below ''Zone'' root_elem)))
                       (PStr ''N/A''))
            \<and> records df =
                map (attach (PStr ''N/A'') (PStr ''N/A''))
                  (List.map_filter (xml_record f) (findall_below ''Zone'' root_elem))))
   \<and> PStr [] \<noteq> PStr ''N/A''"
proof (intro conjI impI)
  assume "\<forall>l\<in>set (txt_lines c). \<not> sublist ''Incident:'' l"
  then have h: "fst (txt_headers c) = []" by (rule txt_headers_no_incident)
  show "fst (txt_headers c) = []" by (rule h)
  have "records (setitem_scalar
           (setitem_scalar (DataFrame (List.map_filter (txt_record f) (txt_data_lines c)))
              ''Incident'' (PStr []))
           ''Timestamp'' (PStr (snd (txt_headers c))))
        = map (attach (PStr []) (PStr (snd (txt_headers c))))
            (List.map_filter (txt_record f) (txt_data_lines c))"
    using txt_record_keys by (rule records_attached)
  then show "\<exists>df ws. parse_txt f c = Inr (df, ws)
            \<and> getitem df ''Incident'' =
                Inr (replicate (length (filter (well_formed_line f) (txt_data_lines c))) (PStr []))
            \<and> records df =
                map (attach (PStr []) (PStr (snd (txt_headers c))))
                  (List.map_filter (txt_record f) (txt_data_lines c))"
    by (simp add: parse_txt_eq getitem_parsed count_txt_records h)
next
  assume "\<forall>l\<in>set (txt_lines c). \<not> sublist ''Timestamp:'' l"
  then have h: "snd (txt_headers c) = []" by (rule txt_headers_no_timestamp)
  show "snd (txt_headers c) = []" by (rule h)
  have "records (setitem_scalar
           (setitem_scalar (DataFrame (List.map_filter (txt_record f) (txt_data_lines c)))
              ''Incident'' (PStr (fst (txt_headers c))))
           ''Timestamp'' (PStr []))
        = map (attach (PStr (fst (txt_headers c))) (PStr []))
            (List.map_filter (txt_record f) (txt_data_lines c))"
    using txt_record_keys by (rule records_attached)
  then show "\<exists>df ws. parse_txt f c = Inr (df, ws)
            \<and> getitem df ''Timestamp'' =
                Inr (replicate (length (filter (well_formed_line f) (txt_data_lines c))) (PStr []))
            \<and> records df =
                map (attach (PStr (fst (txt_headers c))) (PStr []))
                  (List.map_filter (txt_record f) (txt_data_lines c))"
    by (simp add: parse_txt_eq getitem_parsed count_txt_records h)
next
  assume a: "fromstring x = Inr root_elem \<and> (\<forall>e\<in>set (children root_elem). tag e \<noteq> ''Incident'')"
  then have h: "xml_incident root_elem = PStr ''N/A''" "xml_timestamp root_elem = PStr ''N/A''"
    using xml_no_incident [of root_elem] by simp_all
  have "records (setitem_scalar
           (setitem_scalar (DataFrame (List.map_filter (xml_record f) (findall_below ''Zone'' root_elem)))
              ''Incident'' (PStr ''N/A''))
           ''Timestamp'' (PStr ''N/A''))
        = map (attach (PStr ''N/A'') (PStr ''N/A''))
            (List.map_filter (xml_record f) (findall_below ''Zone'' root_elem))"
    using xml_record_keys by (rule records_attached)
  then show "\<exists>df ws. parse_xml fromstring f x = Inr (df, ws)
            \<and> getitem df ''Incident'' =
                Inr (replicate (length (filter (numeric_attributes f) (findall_below ''Zone'' root_elem)))
                       (PStr ''N/A''))
            \<and> getitem df ''Timestamp'' =
                Inr (replicate (length (filter (numeric_attributes f) (findall_below ''Zone'' root_elem)))
                       (PStr ''N/A''))
            \<and> records df =
                map (attach (PStr ''N/A'') (PStr ''N/A''))
                  (List.map_filter (xml_record f) (findall_below ''Zone'' root_elem))"
    using a h by (simp add: parse_xml_def parse_xml_root_eq getitem_parsed count_xml_records)
next
  show "PStr [] \<noteq> PStr ''N/A''" by simp
qed

lemma headerless_lines:
  "\<forall>l\<in>set (txt_lines headerless_report). \<not> sublist ''Incident:'' l"
  "\<forall>l\<in>set (txt_lines headerless_report). \<not> sublist ''Timestamp:'' l"
  by code_simp+

lemma nameless_children: "\<forall>e\<in>set (children nameless_doc). tag e \<noteq> ''Incident''"
  by code_simp

lemma example_counts:
  "length (filter (well_formed_line decimal_literal) (txt_data_lines headerless_report)) = 1"
  "length (filter (numeric_attributes decimal_literal) (findall_below ''Zone'' nameless_doc)) = 1"
  by code_simp+

theorem missing_header_defaults_witness:
  "txt_headers headerless_report = ([], [])
   \<and> (\<exists>df ws. parse_txt decimal_literal headerless_report = Inr (df, ws)
          \<and> getitem df ''Incident'' = Inr [PStr []])
   \<and> (\<exists>df ws. parse_txt decimal_literal headerless_report = Inr (df, ws)
          \<and> getitem df ''Timestamp'' = Inr [PStr []])
   \<and> read_document nameless_xml nameless_doc nameless_xml = Inr nameless_doc
   \<and> (\<exists>df ws. parse_xml (read_document nameless_xml nameless_doc) decimal_literal nameless_xml = Inr (df, ws)
          \<and> getitem df ''Incident'' = Inr [PStr ''N/A'']
          \<and> getitem df ''Timestamp'' = Inr [PStr ''N/A''])"
  using headerless_lines nameless_children read_document_same [of nameless_xml nameless_doc]
    example_counts
    missing_header_defaults [where c = headerless_report and f = decimal_literal
      and fromstring = "read_document nameless_xml nameless_doc" and x = nameless_xml
      and root_elem = nameless_doc]
  by (auto simp add: prod_eq_iff)

lemma read_table_same: "read_table text frame text = Inr frame"
  by (simp add: read_table_def)

lemma two_incidents_parsed:
  "parse_csv (read_table two_incidents_csv two_incidents_frame) two_incidents_csv
     = Inr two_incidents_frame"
  by code_simp

lemma two_incidents_differ: "\<not> same_incident two_incidents_frame"
  by code_simp

text \<open>
  Claim C7 as stated fails for the CSV parser: it returns the columns of the file as
  they are, and a file whose two rows name different incidents gives a record set whose
  records do not share one incident.
\<close>

theorem csv_incidents_differ:
  "parse_csv (read_table two_incidents_csv two_incidents_frame) two_incidents_csv
     = Inr two_incidents_frame
   \<and> getitem two_incidents_frame ''Incident'' = Inr [PStr ''Alpha'', PStr ''Beta'']
   \<and> \<not> same_incident two_incidents_frame"
  using two_incidents_parsed two_incidents_differ
  by (simp add: getitem_def two_incidents_frame_def)

text \<open>
  Claim C7, amended. The record set of the TXT parser and of the XML parser is the list
  of the records of the well-formed data lines, or Zone elements, in the order of the
  input, each with the one incident and the one timestamp of the call attached; so it is
  empty or all its records share them. The CSV parser keeps the rows in the order
  \<open>read_csv\<close> decoded them and only strips the column names; it attaches nothing, and
  its records carry whatever incident and timestamp the file gives each row.
\<close>

theorem parsers_share_incident:
  "(\<exists>df ws. parse_txt f c = Inr (df, ws)
      \<and> records df =
          map (attach (PStr (fst (txt_headers c))) (PStr (snd (txt_headers c))))
            (List.map_filter (txt_record f) (txt_data_lines c))
      \<and> same_incident df)
   \<and> (fromstring x = Inr root_elem \<longrightarrow>
        (\<exists>df ws. parse_xml fromstring f x = Inr (df, ws)
           \<and> records df =
               map (attach (xml_incident root_elem) (xml_timestamp root_elem))
                 (List.map_filter (xml_record f) (findall_below ''Zone'' root_elem))
           \<and> same_incident df))
   \<and> (read_csv y = Inr decoded \<longrightarrow>
        (\<exists>df. parse_csv read_csv y = Inr df
           \<and> n_rows df = n_rows decoded
           \<and> map fst (cols df) = map (\<lambda>c. strip (fst c)) (cols decoded)
           \<and> map snd (cols df) = map snd (cols decoded)))"
proof (intro conjI impI)
  let ?data = "List.map_filter (txt_record f) (txt_data_lines c)"
  let ?df = "setitem_scalar (setitem_scalar (DataFrame ?data) ''Incident'' (PStr (fst (txt_headers c))))
               ''Timestamp'' (PStr (snd (txt_headers c)))"
  have k: "\<forall>d\<in>set ?data. map fst d = zone_keys" by (rule txt_record_keys)
  have r: "records ?df = map (attach (PStr (fst (txt_headers c))) (PStr (snd (txt_headers c)))) ?data"
    using k by (rule records_attached)
  have "same_incident ?df" using r k by (rule same_incident_attached)
  then show "\<exists>df ws. parse_txt f c = Inr (df, ws)
      \<and> records df =
          map (attach (PStr (fst (txt_headers c))) (PStr (snd (txt_headers c))))
            (List.map_filter (txt_record f) (txt_data_lines c))
      \<and> same_incident df"
    using r by (simp add: parse_txt_eq)
next
  assume a: "fromstring x = Inr root_elem"
  let ?data = "List.map_filter (xml_record f) (findall_below ''Zone'' root_elem)"
  let ?df = "setitem_scalar (setitem_scalar (DataFrame ?data) ''Incident'' (xml_incident root_elem))
               ''Timestamp'' (xml_timestamp root_elem)"
  have k: "\<forall>d\<in>set ?data. map fst d = zone_keys" by (rule xml_record_keys)
  have r: "records ?df = map (attach (xml_incident root_elem) (xml_timestamp root_elem)) ?data"
    using k by (rule records_attached)
  have "same_incident ?df" using r k by (rule same_incident_attached)
  then show "\<exists>df ws. parse_xml fromstring f x = Inr (df, ws)
           \<and> records df =
               map (attach (xml_incident root_elem) (xml_timestamp root_elem))
                 (List.map_filter (xml_record f) (findall_below ''Zone'' root_elem))
           \<and> same_incident df"
    using r a by (simp add: parse_xml_def parse_xml_root_eq)
next
  assume "read_csv y = Inr decoded"
  then show "\<exists>df. parse_csv read_csv y = Inr df
           \<and> n_rows df = n_rows decoded
           \<and> map fst (cols df) = map (\<lambda>c. strip (fst c)) (cols decoded)
           \<and> map snd (cols df) = map snd (cols decoded)"
    by (simp add: parse_csv_def comp_def)
qed

theorem parsers_share_incident_witness:
  "(\<exists>df ws. parse_txt decimal_literal scenario1 = Inr (df, ws) \<and> same_incident df)
   \<and> read_document mixed_zones_xml mixed_zones_doc mixed_zones_xml = Inr mixed_zones_doc
   \<and> (\<exists>df ws. parse_xml (read_document mixed_zones_xml mixed_zones_doc) decimal_literal mixed_zones_xml
                  = Inr (df, ws) \<and> same_incident df)
   \<and> read_table two_incidents_csv two_incidents_frame two_incidents_csv = Inr two_incidents_frame
   \<and> (\<exists>df. parse_csv (read_table two_incidents_csv two_incidents_frame) two_incidents_csv = Inr df
          \<and> n_rows df = n_rows two_incidents_frame)"
  using read_document_same [of mixed_zones_xml mixed_zones_doc]
    read_table_same [of two_incidents_csv two_incidents_frame]
    parsers_share_incident [where f = decimal_literal and c = scenario1
      and fromstring = "read_document mixed_zones_xml mixed_zones_doc" and x = mixed_zones_xml
      and root_elem = mixed_zones_doc
      and read_csv = "read_table two_incidents_csv two_incidents_frame" and y = two_incidents_csv
      and decoded = two_incidents_frame]
  by auto

lemma scenario1_lines:
  "txt_data_lines scenario1 = [good_line]"
  "txt_headers scenario1 = (''Test1'', ''2024-01-01 00:00:00'')"
  by code_simp+

lemma good_line_parts:
  "split_on '';'' good_line = [''Zone A'', ''12.5'', ''I-131'', ''5.0'', ''-33.586'', ''18.402'']"
  by code_simp

lemma strip_fields:
  "strip ''Zone A'' = ''Zone A''" "strip ''12.5'' = ''12.5''" "strip ''I-131'' = ''I-131''"
  "strip ''5.0'' = ''5.0''" "strip ''-33.586'' = ''-33.586''" "strip ''18.402'' = ''18.402''"
  by code_simp+

text \<open>
  Claim C8. On the report of scenario 1, whose dose field 12.5 \<open>float\<close> reads as the
  number 12.5, the TXT parser followed by the decision engine gives exactly one record,
  with dose 12.5, action Evacuate and colour red, and no warning.
\<close>

theorem scenario1_evacuate:
  assumes "float_of ''12.5'' = Some (Fin (25 / 2))" and "float_of ''5.0'' = Some radius"
    and "float_of ''-33.586'' = Some latitude" and "float_of ''18.402'' = Some longitude"
  shows "\<exists>df s'. parse_txt float_of scenario1 = Inr (df, [])
           \<and> n_rows df = 1
           \<and> recommend_protective_actions [df] 0 = Inr (s', 0)
           \<and> n_rows (s' ! 0) = 1
           \<and> getitem (s' ! 0) ''Dose (mSv)'' = Inr [PNum (Fin (25 / 2))]
           \<and> getitem (s' ! 0) ''Recommended Action'' = Inr [PStr ''Evacuate'']
           \<and> getitem (s' ! 0) ''Action Color'' = Inr [PStr ''red'']"
proof -
  let ?row = "[(''Zone'', PStr ''Zone A''), (''Dose (mSv)'', PNum (Fin (25 / 2))),
               (''Radionuclide'', PStr ''I-131''), (''Radius (km)'', PNum radius),
               (''Latitude'', PNum latitude), (''Longitude'', PNum longitude)]"
  let ?df = "\<lparr>n_rows = 1,
              cols = [(''Zone'', [PStr ''Zone A'']), (''Dose (mSv)'', [PNum (Fin (25 / 2))]),
                      (''Radionuclide'', [PStr ''I-131'']), (''Radius (km)'', [PNum radius]),
                      (''Latitude'', [PNum latitude]), (''Longitude'', [PNum longitude]),
                      (''Incident'', [PStr ''Test1'']),
                      (''Timestamp'', [PStr ''2024-01-01 00:00:00''])]\<rparr>"
  have row: "txt_row float_of (split_on '';'' good_line) = Inr ?row"
    by (simp add: good_line_parts txt_row_def strip_fields assms)
  have rec: "txt_record float_of good_line = Some ?row"
    by (simp add: txt_record_def row) (simp add: good_line_parts)
  have warn: "txt_warning float_of good_line = None"
    by (simp add: txt_warning_def row) (simp add: good_line_parts)
  have frame: "setitem_scalar (setitem_scalar (DataFrame [?row]) ''Incident'' (PStr ''Test1''))
                 ''Timestamp'' (PStr ''2024-01-01 00:00:00'') = ?df"
    by (simp add: DataFrame_def union_keys_def cell_def setitem_scalar_def setitem_def)
  have p: "parse_txt float_of scenario1 = Inr (?df, [])"
    by (simp add: parse_txt_eq scenario1_lines rec warn frame)
  have e: "recommend_protective_actions [?df] 0 =
             Inr ([setitem (setitem ?df ''Recommended Action'' [PStr ''Evacuate''])
                     ''Action Color'' [PStr ''red'']], 0)"
    by (simp add: recommend_protective_actions_def empty_frame_def getitem_def setitem_def
        get_action_num get_color_def)
  show ?thesis
    using p e by (simp add: getitem_def setitem_def)
qed

lemma decimal_fields:
  "decimal_literal ''12.5'' = Some (Fin (25 / 2))"
  "decimal_literal ''5.0'' = Some (Fin 5)"
  "decimal_literal ''-33.586'' = Some (Fin (- (16793 / 500)))"
  "decimal_literal ''18.402'' = Some (Fin (9201 / 500))"
  by code_simp+

theorem scenario1_evacuate_witness:
  "decimal_literal ''12.5'' = Some (Fin (25 / 2))
   \<and> (\<exists>df s'. parse_txt decimal_literal scenario1 = Inr (df, [])
           \<and> n_rows df = 1
           \<and> recommend_protective_actions [df] 0 = Inr (s', 0)
           \<and> n_rows (s' ! 0) = 1
           \<and> getitem (s' ! 0) ''Dose (mSv)'' = Inr [PNum (Fin (25 / 2))]
           \<and> getitem (s' ! 0) ''Recommended Action'' = Inr [PStr ''Evacuate'']
           \<and> getitem (s' ! 0) ''Action Color'' = Inr [PStr ''red''])"
  using decimal_fields(1) scenario1_evacuate [OF decimal_fields]
  by blast

end
